theory Spec2Isabelle
  imports Complex_Main
begin

section \<open>JavaScript values\<close>

text \<open>
  The viewer script \<^verbatim>\<open>docs/app.js\<close> is dynamically typed: everything it reads from
  the JSON resources is an arbitrary JavaScript value. Numbers are IEEE doubles in the
  source; here a finite number is a real, and \<^verbatim>\<open>NaN\<close> and the two infinities are values
  of their own with the arithmetic ECMAScript gives them. A result of an operation on
  finite numbers overflows to an infinity as a double does, from \<open>2^1024 - 2^970\<close> on in
  magnitude; below that it is kept exact, so the rounding of a double to 53 bits is not
  represented. A number read from JSON stands for the value of the double it is parsed
  to. Strings are lists of code units.
\<close>

datatype jsnum = Fin real | PosInf | NegInf | NaN

definition overflow_at :: real where
  "overflow_at = 2 ^ 1024 - 2 ^ 970"

text \<open>The double that a real result becomes.\<close>

definition fin :: "real \<Rightarrow> jsnum" where
  "fin r = (if overflow_at \<le> r then PosInf else if r \<le> - overflow_at then NegInf else Fin r)"

datatype js =
    Undefined
  | Null
  | Bool bool
  | Num jsnum
  | Str string
  | Arr "js list"
  | Obj "(string \<times> js) list"

subsection \<open>Number arithmetic\<close>

fun is_finite :: "jsnum \<Rightarrow> bool" where
  "is_finite (Fin _) = True"
| "is_finite _ = False"

fun num_neg :: "jsnum \<Rightarrow> jsnum" where
  "num_neg (Fin a) = Fin (- a)"
| "num_neg PosInf = NegInf"
| "num_neg NegInf = PosInf"
| "num_neg NaN = NaN"

fun num_add :: "jsnum \<Rightarrow> jsnum \<Rightarrow> jsnum" where
  "num_add NaN _ = NaN"
| "num_add _ NaN = NaN"
| "num_add (Fin a) (Fin b) = fin (a + b)"
| "num_add (Fin _) PosInf = PosInf"
| "num_add (Fin _) NegInf = NegInf"
| "num_add PosInf NegInf = NaN"
| "num_add PosInf _ = PosInf"
| "num_add NegInf PosInf = NaN"
| "num_add NegInf _ = NegInf"

definition num_sub :: "jsnum \<Rightarrow> jsnum \<Rightarrow> jsnum" where
  "num_sub a b = num_add a (num_neg b)"

text \<open>The sign of an infinity or of a finite number; \<open>0\<close> for zero and for \<^verbatim>\<open>NaN\<close>.\<close>

fun num_sgn :: "jsnum \<Rightarrow> int" where
  "num_sgn (Fin a) = (if a < 0 then - 1 else if a = 0 then 0 else 1)"
| "num_sgn PosInf = 1"
| "num_sgn NegInf = - 1"
| "num_sgn NaN = 0"

definition inf_of_sign :: "int \<Rightarrow> jsnum" where
  "inf_of_sign k = (if k < 0 then NegInf else PosInf)"

fun num_mul :: "jsnum \<Rightarrow> jsnum \<Rightarrow> jsnum" where
  "num_mul NaN _ = NaN"
| "num_mul _ NaN = NaN"
| "num_mul (Fin a) (Fin b) = fin (a * b)"
| "num_mul a b =
     (if num_sgn a = 0 \<or> num_sgn b = 0 then NaN else inf_of_sign (num_sgn a * num_sgn b))"

text \<open>
  Division. The sign of a zero is not represented, so a finite non-zero number divided
  by zero is given the sign of the dividend; the script never divides by zero, because
  a zero divisor is replaced by \<open>1\<close> first (\<^verbatim>\<open>vmax - vmin || 1\<close>).
\<close>

fun num_div :: "jsnum \<Rightarrow> jsnum \<Rightarrow> jsnum" where
  "num_div NaN _ = NaN"
| "num_div _ NaN = NaN"
| "num_div (Fin a) (Fin b) =
     (if b = 0 then (if a = 0 then NaN else inf_of_sign (num_sgn (Fin a))) else fin (a / b))"
| "num_div (Fin _) _ = Fin 0"
| "num_div a (Fin b) = inf_of_sign (num_sgn a * (if b < 0 then - 1 else 1))"
| "num_div _ _ = NaN"

text \<open>\<^verbatim>\<open>Math.min\<close> and \<^verbatim>\<open>Math.max\<close> of two numbers: \<^verbatim>\<open>NaN\<close> if either is.\<close>

fun num_min :: "jsnum \<Rightarrow> jsnum \<Rightarrow> jsnum" where
  "num_min NaN _ = NaN"
| "num_min _ NaN = NaN"
| "num_min NegInf _ = NegInf"
| "num_min _ NegInf = NegInf"
| "num_min PosInf b = b"
| "num_min a PosInf = a"
| "num_min (Fin a) (Fin b) = Fin (min a b)"

fun num_max :: "jsnum \<Rightarrow> jsnum \<Rightarrow> jsnum" where
  "num_max NaN _ = NaN"
| "num_max _ NaN = NaN"
| "num_max PosInf _ = PosInf"
| "num_max _ PosInf = PosInf"
| "num_max NegInf b = b"
| "num_max a NegInf = a"
| "num_max (Fin a) (Fin b) = Fin (max a b)"

text \<open>\<^verbatim>\<open>Math.round\<close>: the nearest integer, a tie going up.\<close>

fun num_round :: "jsnum \<Rightarrow> jsnum" where
  "num_round (Fin a) = fin (of_int (round a))"
| "num_round n = n"

text \<open>The comparisons \<^verbatim>\<open><=\<close> and \<^verbatim>\<open>==\<close> on numbers: false whenever \<^verbatim>\<open>NaN\<close> takes part.\<close>

fun num_le :: "jsnum \<Rightarrow> jsnum \<Rightarrow> bool" where
  "num_le NaN _ = False"
| "num_le _ NaN = False"
| "num_le NegInf _ = True"
| "num_le _ PosInf = True"
| "num_le (Fin a) (Fin b) = (a \<le> b)"
| "num_le _ _ = False"

fun num_eq :: "jsnum \<Rightarrow> jsnum \<Rightarrow> bool" where
  "num_eq NaN _ = False"
| "num_eq _ NaN = False"
| "num_eq a b = (a = b)"

text \<open>A number is falsy when it is zero or \<^verbatim>\<open>NaN\<close>; \<^verbatim>\<open>a || b\<close> on a number \<open>a\<close>.\<close>

fun num_truthy :: "jsnum \<Rightarrow> bool" where
  "num_truthy (Fin a) = (a \<noteq> 0)"
| "num_truthy NaN = False"
| "num_truthy _ = True"

definition num_or :: "jsnum \<Rightarrow> jsnum \<Rightarrow> jsnum" where
  "num_or a b = (if num_truthy a then a else b)"

section \<open>The colour scale\<close>

text \<open>
  A CSS colour \<^verbatim>\<open>rgba(r,g,b,a)\<close> is kept as its four components instead of the string
  the template literal builds from them.
\<close>

datatype color = Rgba jsnum jsnum jsnum jsnum

fun red :: "color \<Rightarrow> jsnum" where "red (Rgba r _ _ _) = r"
fun green :: "color \<Rightarrow> jsnum" where "green (Rgba _ g _ _) = g"
fun blue :: "color \<Rightarrow> jsnum" where "blue (Rgba _ _ b _) = b"
fun alpha :: "color \<Rightarrow> jsnum" where "alpha (Rgba _ _ _ a) = a"

text \<open>
  \<^verbatim>\<open>
  function colorScale(v, vmin, vmax){
    if (!isFinite(v)) return "rgba(0,0,0,0)";
    const x = Math.max(0, Math.min(1, (v - vmin) / (vmax - vmin || 1)));
    const r = Math.round(255 * x);
    const b = Math.round(255 * (1 - x));
    return `rgba(${r},0,${b},0.55)`;
  }
  \<close>
  \<^verbatim>\<open>isFinite\<close> and \<^verbatim>\<open>-\<close> convert their operands to numbers, so the function is
  given here on numbers and its caller converts the arguments.
\<close>

definition colorScale :: "jsnum \<Rightarrow> jsnum \<Rightarrow> jsnum \<Rightarrow> color" where
  "colorScale v vmin vmax =
     (if \<not> is_finite v then Rgba (Fin 0) (Fin 0) (Fin 0) (Fin 0)
      else
        let x = num_max (Fin 0)
                  (num_min (Fin 1) (num_div (num_sub v vmin) (num_or (num_sub vmax vmin) (Fin 1))));
            r = num_round (num_mul (Fin 255) x);
            b = num_round (num_mul (Fin 255) (num_sub (Fin 1) x))
        in Rgba r (Fin 0) b (Fin (55 / 100)))"

text \<open>The clamp of the specification, \<open>clamp(y, 0, 1)\<close>, on numbers.\<close>

definition clamp01 :: "jsnum \<Rightarrow> jsnum" where
  "clamp01 y = num_max (Fin 0) (num_min (Fin 1) y)"

section \<open>Strings and conversions\<close>

text \<open>\<^verbatim>\<open>xs.slice(b, e)\<close> for constants \<open>0 \<le> b \<le> e\<close>, on strings and on arrays.\<close>

definition slice :: "nat \<Rightarrow> nat \<Rightarrow> 'a list \<Rightarrow> 'a list" where
  "slice b e xs = take (e - b) (drop b xs)"

definition digit_char :: "nat \<Rightarrow> char" where
  "digit_char d = ''0123456789'' ! d"

text \<open>The decimal digits of a natural number: \<^verbatim>\<open>String(n)\<close> for a small integer.\<close>

fun dec :: "nat \<Rightarrow> string" where
  "dec n = (if n < 10 then [digit_char n] else dec (n div 10) @ [digit_char (n mod 10)])"

declare dec.simps [simp del]

definition dec_int :: "int \<Rightarrow> string" where
  "dec_int k = (if k < 0 then CHR ''-'' # dec (nat (- k)) else dec (nat k))"

text \<open>\<^verbatim>\<open>padStart(w, "0")\<close> of the decimal digits.\<close>

definition pad :: "nat \<Rightarrow> nat \<Rightarrow> string" where
  "pad w n = replicate (w - length (dec n)) CHR ''0'' @ dec n"

text \<open>\<^verbatim>\<open>toUpperCase\<close>; only the letters \<open>a\<close> to \<open>z\<close> are changed.\<close>

definition upper_char :: "char \<Rightarrow> char" where
  "upper_char c =
     (case map_of (zip ''abcdefghijklmnopqrstuvwxyz'' ''ABCDEFGHIJKLMNOPQRSTUVWXYZ'') c of
        Some u \<Rightarrow> u
      | None \<Rightarrow> c)"

definition toUpperCase :: "string \<Rightarrow> string" where
  "toUpperCase s = map upper_char s"

definition is_digit :: "char \<Rightarrow> bool" where
  "is_digit c = (48 \<le> (of_char c :: nat) \<and> (of_char c :: nat) \<le> 57)"

definition digit_val :: "char \<Rightarrow> nat" where
  "digit_val c = (of_char c :: nat) - 48"

text \<open>White space that \<^verbatim>\<open>parseInt\<close> skips: tab, line feed, vertical tab, form feed,
  carriage return, space and no-break space.\<close>

definition is_space :: "char \<Rightarrow> bool" where
  "is_space c = ((of_char c :: nat) \<in> {9, 10, 11, 12, 13, 32, 160})"

definition digits_val :: "string \<Rightarrow> nat" where
  "digits_val ds = foldl (\<lambda>a c. 10 * a + digit_val c) 0 ds"

text \<open>
  \<^verbatim>\<open>parseInt(s, 10)\<close>: leading white space, an optional sign, then the longest run of
  digits; \<^verbatim>\<open>NaN\<close> without a digit. The integer becomes a double, which is an infinity
  from \<open>2^1024 - 2^970\<close> on; below that the double is the integer itself up to \<open>2^53\<close>
  and at least \<open>2^53\<close> beyond.
\<close>

definition parseInt10 :: "string \<Rightarrow> jsnum" where
  "parseInt10 s =
     (let t = dropWhile is_space s;
          neg = (t \<noteq> [] \<and> hd t = CHR ''-'');
          u = (if t \<noteq> [] \<and> (hd t = CHR ''-'' \<or> hd t = CHR ''+'') then tl t else t);
          ds = takeWhile is_digit u
      in if ds = [] then NaN
         else if digits_val ds \<ge> 2 ^ 1024 - 2 ^ 970 then (if neg then NegInf else PosInf)
         else Fin (if neg then - of_nat (digits_val ds) else of_nat (digits_val ds)))"

subsection \<open>The run-time environment\<close>

text \<open>
  What the browser supplies and the script does not define: the network, the clock, and
  the conversions between numbers and strings where they depend on the digits of a
  double. Every function below that needs one of them takes the environment.
\<close>

datatype error = Error string | TypeError string | SyntaxError string

fun message :: "error \<Rightarrow> string" where
  "message (Error m) = m"
| "message (TypeError m) = m"
| "message (SyntaxError m) = m"

text \<open>
  A response of \<^verbatim>\<open>fetch\<close>: the promise rejects (a transport failure), or there is a
  response with a status and the outcome of \<^verbatim>\<open>res.json()\<close>, which is the parsed value or
  the error raised for a body that is not JSON.
\<close>

datatype response = Rejected error | Response nat "error + js"

text \<open>The value of \<^verbatim>\<open>new Date()\<close>: its fields in UTC, and the offset of the local time
  zone in minutes (\<^verbatim>\<open>getTimezoneOffset\<close>).\<close>

record js_date =
  year :: int
  month :: nat
  day :: nat
  hours :: nat
  minutes :: nat
  seconds :: nat
  millis :: nat
  timezoneOffset :: int

record env =
  fetch :: "string \<Rightarrow> response"
  clock :: js_date
  numberToString :: "real \<Rightarrow> string"
  stringToNumber :: "string \<Rightarrow> jsnum"

text \<open>\<^verbatim>\<open>Date.prototype.toISOString\<close>, which prints the UTC fields: four digits for the
  years 0 to 9999, a sign and six digits otherwise.\<close>

definition toISOString :: "js_date \<Rightarrow> string" where
  "toISOString d =
     (if 0 \<le> year d \<and> year d \<le> 9999 then pad 4 (nat (year d))
      else (if year d < 0 then ''-'' else ''+'') @ pad 6 (nat \<bar>year d\<bar>))
     @ ''-'' @ pad 2 (month d) @ ''-'' @ pad 2 (day d)
     @ ''T'' @ pad 2 (hours d) @ '':'' @ pad 2 (minutes d) @ '':'' @ pad 2 (seconds d)
     @ ''.'' @ pad 3 (millis d) @ ''Z''"

text \<open>\<^verbatim>\<open>Number.prototype.toString\<close>: decimal digits for an integer below \<open>10^21\<close> in
  magnitude, the environment's digits for any other finite number.\<close>

definition num_toString :: "env \<Rightarrow> jsnum \<Rightarrow> string" where
  "num_toString en n =
     (case n of
        NaN \<Rightarrow> ''NaN''
      | PosInf \<Rightarrow> ''Infinity''
      | NegInf \<Rightarrow> ''-Infinity''
      | Fin r \<Rightarrow>
          if of_int \<lfloor>r\<rfloor> = r \<and> \<bar>r\<bar> < 10 ^ 21 then dec_int \<lfloor>r\<rfloor> else numberToString en r)"

text \<open>
  \<^verbatim>\<open>n.toFixed(2)\<close>: the sign, then the nearest multiple of one hundredth of the magnitude
  (the larger one at a tie) with two decimals; the plain conversion from \<open>10^21\<close> on and
  for a value that is not finite.
\<close>

definition toFixed2 :: "env \<Rightarrow> jsnum \<Rightarrow> string" where
  "toFixed2 en n =
     (case n of
        Fin r \<Rightarrow>
          if \<bar>r\<bar> \<ge> 10 ^ 21 then num_toString en n
          else
            let k = nat \<lfloor>\<bar>r\<bar> * 100 + 1 / 2\<rfloor>
            in (if r < 0 then ''-'' else []) @ dec (k div 100) @ ''.'' @ pad 2 (k mod 100)
      | _ \<Rightarrow> num_toString en n)"

fun join :: "string \<Rightarrow> string list \<Rightarrow> string" where
  "join sep [] = []"
| "join sep [x] = x"
| "join sep (x # y # ys) = x @ sep @ join sep (y # ys)"

fun nullish :: "js \<Rightarrow> bool" where
  "nullish Undefined = True"
| "nullish Null = True"
| "nullish _ = False"

text \<open>
  The conversion to a string that a template literal applies. An array is its elements
  joined by commas, \<^verbatim>\<open>null\<close> and \<^verbatim>\<open>undefined\<close> elements being empty. Objects are taken
  to have no \<^verbatim>\<open>toString\<close> or \<^verbatim>\<open>valueOf\<close> entry of their own.
\<close>

fun toString :: "env \<Rightarrow> js \<Rightarrow> string" where
  "toString en Undefined = ''undefined''"
| "toString en Null = ''null''"
| "toString en (Bool b) = (if b then ''true'' else ''false'')"
| "toString en (Num n) = num_toString en n"
| "toString en (Str s) = s"
| "toString en (Arr xs) = join '','' (map (\<lambda>x. if nullish x then [] else toString en x) xs)"
| "toString en (Obj kvs) = ''[object Object]''"

text \<open>The conversion to a number that \<^verbatim>\<open>isFinite\<close>, \<^verbatim>\<open>Number\<close> and \<^verbatim>\<open>-\<close> apply.\<close>

fun toNumber :: "env \<Rightarrow> js \<Rightarrow> jsnum" where
  "toNumber en Undefined = NaN"
| "toNumber en Null = Fin 0"
| "toNumber en (Bool b) = (if b then Fin 1 else Fin 0)"
| "toNumber en (Num n) = n"
| "toNumber en (Str s) = stringToNumber en s"
| "toNumber en (Arr xs) = stringToNumber en (toString en (Arr xs))"
| "toNumber en (Obj kvs) = NaN"

fun truthy :: "js \<Rightarrow> bool" where
  "truthy Undefined = False"
| "truthy Null = False"
| "truthy (Bool b) = b"
| "truthy (Num n) = num_truthy n"
| "truthy (Str s) = (s \<noteq> [])"
| "truthy (Arr _) = True"
| "truthy (Obj _) = True"

text \<open>\<^verbatim>\<open>a || b\<close> and \<^verbatim>\<open>a ?? b\<close>.\<close>

definition js_or :: "js \<Rightarrow> js \<Rightarrow> js" where
  "js_or a b = (if truthy a then a else b)"

definition js_coalesce :: "js \<Rightarrow> js \<Rightarrow> js" where
  "js_coalesce a b = (if nullish a then b else a)"

text \<open>
  \<^verbatim>\<open>x?.k\<close>: the entry of an object, \<^verbatim>\<open>undefined\<close> when there is none and for every value
  that is not an object (none of the names the script reads is a property of a string,
  an array, a number or a boolean). \<^verbatim>\<open>x.k\<close> is the same except that it raises on
  \<^verbatim>\<open>null\<close> and \<^verbatim>\<open>undefined\<close>.
\<close>

fun get_opt :: "js \<Rightarrow> string \<Rightarrow> js" where
  "get_opt (Obj kvs) k = (case map_of kvs k of None \<Rightarrow> Undefined | Some v \<Rightarrow> v)"
| "get_opt _ k = Undefined"

definition get_prop :: "js \<Rightarrow> string \<Rightarrow> error + js" where
  "get_prop x k =
     (if nullish x then Inl (TypeError (''Cannot read properties of '' @ (if x = Null then ''null'' else ''undefined'')))
      else Inr (get_opt x k))"

text \<open>\<^verbatim>\<open>a + b\<close>: concatenation as soon as one side is a string, an array or an object,
  addition of numbers otherwise.\<close>

fun stringy :: "js \<Rightarrow> bool" where
  "stringy (Str _) = True"
| "stringy (Arr _) = True"
| "stringy (Obj _) = True"
| "stringy _ = False"

definition js_add :: "env \<Rightarrow> js \<Rightarrow> js \<Rightarrow> js" where
  "js_add en a b =
     (if stringy a \<or> stringy b then Str (toString en a @ toString en b)
      else Num (num_add (toNumber en a) (toNumber en b)))"

text \<open>\<^verbatim>\<open>xs[i]\<close> on an array: \<^verbatim>\<open>undefined\<close> outside the array.\<close>

definition js_index :: "js list \<Rightarrow> int \<Rightarrow> js" where
  "js_index xs i = (if 0 \<le> i \<and> i < int (length xs) then xs ! nat i else Undefined)"

section \<open>Date conversions\<close>

text \<open>
  \<^verbatim>\<open>
  function ymdToFolder(dateStr){ return (dateStr || "").replaceAll("-", ""); }
  \<close>
  Every caller passes a string (the value of the date control, or a slice of an ISO
  time stamp).
\<close>

definition ymdToFolder :: "string \<Rightarrow> string" where
  "ymdToFolder dateStr = filter (\<lambda>c. c \<noteq> CHR ''-'') (if dateStr = [] then [] else dateStr)"

text \<open>
  \<^verbatim>\<open>
  function folderToISODate(ymd){
    return `${ymd.slice(0,4)}-${ymd.slice(4,6)}-${ymd.slice(6,8)}`;
  }
  \<close>
  On a string this is \<open>folderToISODate_str\<close>. The argument can also be any other value
  (it comes from \<^verbatim>\<open>latest.json\<close>): an array has a \<^verbatim>\<open>slice\<close> too, everything else raises.
\<close>

definition folderToISODate_str :: "string \<Rightarrow> string" where
  "folderToISODate_str ymd = slice 0 4 ymd @ ''-'' @ slice 4 6 ymd @ ''-'' @ slice 6 8 ymd"

definition no_slice :: "string \<Rightarrow> js \<Rightarrow> error" where
  "no_slice name x =
     (if nullish x then TypeError ''Cannot read properties of null or undefined (reading slice)''
      else TypeError (name @ ''.slice is not a function''))"

definition folderToISODate :: "env \<Rightarrow> js \<Rightarrow> error + string" where
  "folderToISODate en ymd =
     (case ymd of
        Str s \<Rightarrow> Inr (folderToISODate_str s)
      | Arr xs \<Rightarrow>
          Inr (toString en (Arr (slice 0 4 xs)) @ ''-'' @ toString en (Arr (slice 4 6 xs))
               @ ''-'' @ toString en (Arr (slice 6 8 xs)))
      | _ \<Rightarrow> Inl (no_slice ''ymd'' ymd))"

text \<open>Well-formed dates: eight digits, and \<open>dddd-dd-dd\<close>.\<close>

definition is_folder_date :: "string \<Rightarrow> bool" where
  "is_folder_date x = (length x = 8 \<and> list_all is_digit x)"

definition is_iso_date :: "string \<Rightarrow> bool" where
  "is_iso_date y =
     (length y = 10 \<and> list_all is_digit (take 4 y) \<and> y ! 4 = CHR ''-''
      \<and> list_all is_digit (take 2 (drop 5 y)) \<and> y ! 7 = CHR ''-''
      \<and> list_all is_digit (drop 8 y))"

section \<open>The page state\<close>

text \<open>
  The module-level variables and the parts of the page the script writes. The time
  slider is an object with three string attributes; the map layer group is the list of
  the rectangles it holds; \<open>requests\<close> records, in order, the URLs fetched. The third
  module-level variable, the list of available times, is \<open>times_var\<close> here.
\<close>

record slider =
  slider_min :: string
  slider_max :: string
  slider_value :: string

text \<open>A rectangle as \<^verbatim>\<open>L.rectangle\<close> receives it: two corners, a fill colour, and the
  tooltip bound to it. Leaflet's own checks of the corners are not part of the script.\<close>

record rect =
  corner1 :: "js \<times> js"
  corner2 :: "js \<times> js"
  fillColor :: color
  tooltip :: string

text \<open>
  The legend is either the markup \<open>drawGrid\<close> writes, kept as the six strings put into
  its template (layer, date, time, lower and upper end of the range, unit), or a plain
  text.
\<close>

datatype legend = LegendHtml string string string string string string | LegendText string

record state =
  currentDate :: js
  currentKind :: string
  times_var :: js
  dateInput :: string
  timeSlider :: slider
  timeLabel :: string
  statusEl :: string
  legendBody :: legend
  gridLayer :: "rect list"
  requests :: "string list"

definition setStatus :: "string \<Rightarrow> state \<Rightarrow> state" where
  "setStatus msg s = s\<lparr>statusEl := msg\<rparr>"

section \<open>Fetching the resources\<close>

definition res_ok :: "nat \<Rightarrow> bool" where
  "res_ok st = (200 \<le> st \<and> st \<le> 299)"

text \<open>
  \<^verbatim>\<open>
  async function fetchJson(url){
    const res = await fetch(url, { cache: "no-store" });
    if (!res.ok) throw new Error(`HTTP ${res.status} ${url}`);
    return await res.json();
  }
  \<close>
\<close>

definition fetchJson :: "env \<Rightarrow> string \<Rightarrow> state \<Rightarrow> (error + js) \<times> state" where
  "fetchJson en url s =
     (let s' = s\<lparr>requests := requests s @ [url]\<rparr>
      in case fetch en url of
           Rejected e \<Rightarrow> (Inl e, s')
         | Response st body \<Rightarrow>
             if \<not> res_ok st then (Inl (Error (''HTTP '' @ dec st @ '' '' @ url)), s')
             else (body, s'))"

text \<open>A fetch fails when the promise rejects, the status is not a success, or the body
  is not JSON.\<close>

definition fetch_fails :: "env \<Rightarrow> string \<Rightarrow> bool" where
  "fetch_fails en url =
     (case fetch en url of
        Rejected e \<Rightarrow> True
      | Response st body \<Rightarrow> \<not> res_ok st \<or> isl body)"

definition latest_url :: string where
  "latest_url = ''./data/latest.json''"

definition loadLatestDate :: "env \<Rightarrow> state \<Rightarrow> (error + js) \<times> state" where
  "loadLatestDate en s =
     (case fetchJson en latest_url s of
        (Inl e, s') \<Rightarrow> (Inl e, s')
      | (Inr j, s') \<Rightarrow>
          if \<not> truthy (get_opt j ''date'') then (Inl (Error ''latest.json missing date''), s')
          else (Inr (get_opt j ''date''), s'))"

definition index_url :: "env \<Rightarrow> js \<Rightarrow> string \<Rightarrow> string" where
  "index_url en ymd kind = ''./data/'' @ toString en ymd @ ''/'' @ kind @ ''/index.json''"

definition loadLayerIndex :: "env \<Rightarrow> js \<Rightarrow> string \<Rightarrow> state \<Rightarrow> (error + js) \<times> state" where
  "loadLayerIndex en ymd kind s = fetchJson en (index_url en ymd kind) s"

definition grid_url :: "env \<Rightarrow> js \<Rightarrow> string \<Rightarrow> js \<Rightarrow> string" where
  "grid_url en ymd kind hhmm =
     ''./data/'' @ toString en ymd @ ''/'' @ kind @ ''/'' @ toString en hhmm @ ''.json''"

definition loadGrid :: "env \<Rightarrow> js \<Rightarrow> string \<Rightarrow> js \<Rightarrow> state \<Rightarrow> (error + js) \<times> state" where
  "loadGrid en ymd kind hhmm s = fetchJson en (grid_url en ymd kind hhmm) s"

section \<open>Drawing a grid\<close>

text \<open>\<^verbatim>\<open>v.toFixed(2)\<close> on a value read from the index: only a number has the method.\<close>

definition toFixed :: "env \<Rightarrow> string \<Rightarrow> js \<Rightarrow> error + string" where
  "toFixed en name v =
     (case v of
        Num n \<Rightarrow> Inr (toFixed2 en n)
      | _ \<Rightarrow> Inl (TypeError (name @ ''.toFixed is not a function'')))"

text \<open>The template of the legend; its holes are filled from left to right.\<close>

definition legendHtml :: "env \<Rightarrow> state \<Rightarrow> js \<Rightarrow> js \<Rightarrow> js \<Rightarrow> error + legend" where
  "legendHtml en s vmin vmax unit =
     (case folderToISODate en (currentDate s) of
        Inl e \<Rightarrow> Inl e
      | Inr d \<Rightarrow>
          (case toFixed en ''vmin'' vmin of
             Inl e \<Rightarrow> Inl e
           | Inr lo \<Rightarrow>
               (case toFixed en ''vmax'' vmax of
                  Inl e \<Rightarrow> Inl e
                | Inr hi \<Rightarrow>
                    Inr (LegendHtml (toUpperCase (currentKind s)) d (timeLabel s) lo hi
                           (toString en unit)))))"

text \<open>What \<^verbatim>\<open>for (const c of cells)\<close> runs over: the elements of an array, the
  characters of a string; any other value is not iterable.\<close>

definition iterate :: "js \<Rightarrow> error + js list" where
  "iterate v =
     (case v of
        Arr xs \<Rightarrow> Inr xs
      | Str cs \<Rightarrow> Inr (map (\<lambda>c. Str [c]) cs)
      | _ \<Rightarrow> Inl (TypeError ''cells is not iterable''))"

text \<open>The body of the loop, up to the rectangle it adds.\<close>

definition cellRect :: "env \<Rightarrow> js \<Rightarrow> js \<Rightarrow> js \<Rightarrow> js \<Rightarrow> js \<Rightarrow> js \<Rightarrow> error + rect" where
  "cellRect en dlat dlon vmin vmax unit c =
     (case get_prop c ''lat'' of
        Inl e \<Rightarrow> Inl e
      | Inr lat1 \<Rightarrow>
          let lon1 = get_opt c ''lon'';
              lat2 = js_add en lat1 dlat;
              lon2 = js_add en lon1 dlon;
              val = get_opt c ''val''
          in Inr \<lparr>corner1 = (lat1, lon1), corner2 = (lat2, lon2),
                  fillColor = colorScale (toNumber en val) (toNumber en vmin) (toNumber en vmax),
                  tooltip = toFixed2 en (toNumber en val) @ '' '' @ toString en unit\<rparr>)"

fun drawCells :: "env \<Rightarrow> js \<Rightarrow> js \<Rightarrow> js \<Rightarrow> js \<Rightarrow> js \<Rightarrow> js list \<Rightarrow> state \<Rightarrow> error option \<times> state" where
  "drawCells en dlat dlon vmin vmax unit [] s = (None, s)"
| "drawCells en dlat dlon vmin vmax unit (c # cs) s =
     (case cellRect en dlat dlon vmin vmax unit c of
        Inl e \<Rightarrow> (Some e, s)
      | Inr r \<Rightarrow> drawCells en dlat dlon vmin vmax unit cs (s\<lparr>gridLayer := gridLayer s @ [r]\<rparr>))"

text \<open>
  \<^verbatim>\<open>
  function drawGrid(grid, indexMeta){
    gridLayer.clearLayers();
    const dlat = indexMeta?.cell?.dlat ?? 2.0;
    const dlon = indexMeta?.cell?.dlon ?? 2.0;
    const unit = indexMeta?.unit ?? "";
    const vmin = indexMeta?.range?.vmin ?? 0;
    const vmax = indexMeta?.range?.vmax ?? 1;
    legendBody.innerHTML = `...`;
    const cells = grid?.cells || [];
    for (const c of cells){ ... rect.addTo(gridLayer); }
  }
  \<close>
  The result is the error raised, if any, and the state reached.
\<close>

definition drawGrid :: "env \<Rightarrow> js \<Rightarrow> js \<Rightarrow> state \<Rightarrow> error option \<times> state" where
  "drawGrid en grid indexMeta s =
     (let s1 = s\<lparr>gridLayer := []\<rparr>;
          dlat = js_coalesce (get_opt (get_opt indexMeta ''cell'') ''dlat'') (Num (Fin 2));
          dlon = js_coalesce (get_opt (get_opt indexMeta ''cell'') ''dlon'') (Num (Fin 2));
          unit = js_coalesce (get_opt indexMeta ''unit'') (Str []);
          vmin = js_coalesce (get_opt (get_opt indexMeta ''range'') ''vmin'') (Num (Fin 0));
          vmax = js_coalesce (get_opt (get_opt indexMeta ''range'') ''vmax'') (Num (Fin 1))
      in case legendHtml en s1 vmin vmax unit of
           Inl e \<Rightarrow> (Some e, s1)
         | Inr h \<Rightarrow>
             (case iterate (js_or (get_opt grid ''cells'') (Arr [])) of
                Inl e \<Rightarrow> (Some e, s1\<lparr>legendBody := h\<rparr>)
              | Inr cs \<Rightarrow> drawCells en dlat dlon vmin vmax unit cs (s1\<lparr>legendBody := h\<rparr>)))"

section \<open>The render pipeline\<close>

text \<open>
  \<^verbatim>\<open>
  let i = parseInt(timeSlider.value || "0", 10);
  if (!Number.isFinite(i)) i = 0;
  i = Math.max(0, Math.min(times.length - 1, i));
  \<close>
  for an array of \<open>n\<close> times and the slider's value \<open>v\<close>.
\<close>

definition clampIndex :: "nat \<Rightarrow> string \<Rightarrow> int" where
  "clampIndex n v =
     (let i = (case parseInt10 (if v = [] then ''0'' else v) of Fin r \<Rightarrow> \<lfloor>r\<rfloor> | _ \<Rightarrow> 0)
      in max 0 (min (int n - 1) i))"

text \<open>\<^verbatim>\<open>`${hhmm.slice(0,2)}:${hhmm.slice(2,4)} UTC`\<close>\<close>

definition timeLabelText :: "env \<Rightarrow> js \<Rightarrow> error + string" where
  "timeLabelText en hhmm =
     (case hhmm of
        Str t \<Rightarrow> Inr (slice 0 2 t @ '':'' @ slice 2 4 t @ '' UTC'')
      | Arr xs \<Rightarrow>
          Inr (toString en (Arr (slice 0 2 xs)) @ '':'' @ toString en (Arr (slice 2 4 xs)) @ '' UTC'')
      | _ \<Rightarrow> Inl (no_slice ''hhmm'' hhmm))"

text \<open>The branch of \<open>refresh\<close> for an index without times.\<close>

definition noTimes :: "state \<Rightarrow> state" where
  "noTimes s =
     setStatus (''No times in '' @ currentKind s @ ''/index.json (yet)'')
       (s\<lparr>timeSlider := \<lparr>slider_min = ''0'', slider_max = ''0'', slider_value = ''0''\<rparr>,
          timeLabel := ''--:-- UTC'',
          gridLayer := []\<rparr>)"

text \<open>The rest of \<open>refresh\<close> for an index \<open>idx\<close> whose times are the non-empty array \<open>xs\<close>.\<close>

definition showTime :: "env \<Rightarrow> js \<Rightarrow> js list \<Rightarrow> state \<Rightarrow> error option \<times> state" where
  "showTime en idx xs s =
     (let i = clampIndex (length xs) (slider_value (timeSlider s));
          s1 = s\<lparr>timeSlider :=
                  \<lparr>slider_min = ''0'', slider_max = dec_int (int (length xs) - 1),
                   slider_value = dec_int i\<rparr>\<rparr>;
          hhmm = js_index xs i
      in case timeLabelText en hhmm of
           Inl e \<Rightarrow> (Some e, s1)
         | Inr lbl \<Rightarrow>
             (case loadGrid en (currentDate s1) (currentKind s1) hhmm (s1\<lparr>timeLabel := lbl\<rparr>) of
                (Inl e, s2) \<Rightarrow> (Some e, s2)
              | (Inr grid, s2) \<Rightarrow>
                  (case drawGrid en grid idx s2 of
                     (Some e, s3) \<Rightarrow> (Some e, s3)
                   | (None, s3) \<Rightarrow>
                       (None,
                        setStatus
                          (''OK (updated: ''
                           @ toString en (js_or (get_opt idx ''updated_utc'') (Str ''unknown''))
                           @ '')'') s3))))"

text \<open>The body of the \<^verbatim>\<open>try\<close> block of \<open>refresh\<close>.\<close>

definition refresh_try :: "env \<Rightarrow> state \<Rightarrow> error option \<times> state" where
  "refresh_try en s =
     (let s0 = setStatus (''Loading '' @ toUpperCase (currentKind s) @ '' ''
                          @ toString en (currentDate s) @ ''...'') s
      in case loadLayerIndex en (currentDate s0) (currentKind s0) s0 of
           (Inl e, s1) \<Rightarrow> (Some e, s1)
         | (Inr idx, s1) \<Rightarrow>
             let ts = js_or (get_opt idx ''times_utc'') (Arr []);
                 s2 = s1\<lparr>times_var := ts\<rparr>
             in (case ts of
                   Arr xs \<Rightarrow> if length xs = 0 then (None, noTimes s2) else showTime en idx xs s2
                 | _ \<Rightarrow> (None, noTimes s2)))"

text \<open>
  \<^verbatim>\<open>
  async function refresh(){
    if (!currentDate) return;
    try{ ... } catch (e){
      gridLayer.clearLayers();
      setStatus(`Error: ${e.message}`);
      legendBody.textContent = "Data missing or not generated yet.";
    }
  }
  \<close>
\<close>

definition refresh_catch :: "error \<Rightarrow> state \<Rightarrow> state" where
  "refresh_catch e s =
     (setStatus (''Error: '' @ message e) (s\<lparr>gridLayer := []\<rparr>))
       \<lparr>legendBody := LegendText ''Data missing or not generated yet.''\<rparr>"

definition refresh :: "env \<Rightarrow> state \<Rightarrow> error option \<times> state" where
  "refresh en s =
     (if \<not> truthy (currentDate s) then (None, s)
      else case refresh_try en s of
             (None, s') \<Rightarrow> (None, s')
           | (Some e, s') \<Rightarrow> (None, refresh_catch e s'))"

section \<open>Start-up\<close>

text \<open>
  \<^verbatim>\<open>
  async function setDateFromLatest(){
    const ymd = await loadLatestDate();
    currentDate = ymd;
    dateInput.value = folderToISODate(ymd);
  }
  \<close>
\<close>

definition setDateFromLatest :: "env \<Rightarrow> state \<Rightarrow> error option \<times> state" where
  "setDateFromLatest en s =
     (case loadLatestDate en s of
        (Inl e, s1) \<Rightarrow> (Some e, s1)
      | (Inr ymd, s1) \<Rightarrow>
          (case folderToISODate en ymd of
             Inl e \<Rightarrow> (Some e, s1\<lparr>currentDate := ymd\<rparr>)
           | Inr d \<Rightarrow> (None, s1\<lparr>currentDate := ymd, dateInput := d\<rparr>)))"

text \<open>
  \<^verbatim>\<open>
  (async function boot(){
    try{ await setDateFromLatest(); }
    catch {
      const d = new Date();
      const iso = d.toISOString().slice(0,10);
      dateInput.value = iso;
      currentDate = ymdToFolder(iso);
    }
    await refresh();
  })();
  \<close>
\<close>

definition boot_fallback :: "env \<Rightarrow> state \<Rightarrow> state" where
  "boot_fallback en s =
     (let iso = slice 0 10 (toISOString (clock en))
      in s\<lparr>dateInput := iso, currentDate := Str (ymdToFolder iso)\<rparr>)"

definition boot :: "env \<Rightarrow> state \<Rightarrow> error option \<times> state" where
  "boot en s =
     (case setDateFromLatest en s of
        (None, s1) \<Rightarrow> refresh en s1
      | (Some e, s1) \<Rightarrow> refresh en (boot_fallback en s1))"

text \<open>The module-level initialisation (lines 16 to 20 of the script), on a page whose
  elements are in any state.\<close>

definition initial :: "state \<Rightarrow> state" where
  "initial page =
     page\<lparr>currentDate := Null, currentKind := ''tec'', times_var := Arr [],
          gridLayer := [], requests := []\<rparr>"

section \<open>Notions used to state the properties\<close>

text \<open>The normalised value for a finite range with distinct ends.\<close>

definition unit_x :: "real \<Rightarrow> real \<Rightarrow> real \<Rightarrow> real" where
  "unit_x v lo hi = max 0 (min 1 ((v - lo) / (hi - lo)))"

text \<open>The fetch of the layer index fails.\<close>

definition index_fails :: "env \<Rightarrow> state \<Rightarrow> bool" where
  "index_fails en s = fetch_fails en (index_url en (currentDate s) (currentKind s))"

text \<open>The index arrives with a non-empty list of times and the fetch of the snapshot for
  the selected time fails.\<close>

definition grid_fails :: "env \<Rightarrow> state \<Rightarrow> bool" where
  "grid_fails en s =
     (case fetch en (index_url en (currentDate s) (currentKind s)) of
        Rejected e \<Rightarrow> False
      | Response st body \<Rightarrow>
          res_ok st \<and>
          (case body of
             Inl e \<Rightarrow> False
           | Inr idx \<Rightarrow>
               (case get_opt idx ''times_utc'' of
                  Arr xs \<Rightarrow>
                    xs \<noteq> [] \<and>
                    fetch_fails en
                      (grid_url en (currentDate s) (currentKind s)
                         (js_index xs (clampIndex (length xs) (slider_value (timeSlider s)))))
                | _ \<Rightarrow> False)))"

text \<open>The selection is valid: when the known times are a non-empty array, the slider's
  value is the decimal form of an index into it.\<close>

definition valid_selection :: "state \<Rightarrow> bool" where
  "valid_selection s =
     (case times_var s of
        Arr xs \<Rightarrow> xs = [] \<or> slider_value (timeSlider s) \<in> set (map (\<lambda>i. dec i) [0..<length xs])
      | _ \<Rightarrow> True)"

text \<open>The state after the status line \<open>Loading ...\<close> and the request for the index.\<close>

definition loading :: "env \<Rightarrow> state \<Rightarrow> state" where
  "loading en s = s\<lparr>statusEl := ''Loading '' @ toUpperCase (currentKind s) @ '' ''
                          @ toString en (currentDate s) @ ''...'',
                     requests := requests s @ [index_url en (currentDate s) (currentKind s)]\<rparr>"

text \<open>
  What the index says about the grid, stated apart from \<open>drawGrid\<close>: a field that is
  missing or \<^verbatim>\<open>null\<close> stands for its default, 2 by 2 degrees for the cell, 0 to 1 for the
  range, and the empty unit.
\<close>

definition field_or :: "js \<Rightarrow> js \<Rightarrow> js" where
  "field_or v d = (case v of Undefined \<Rightarrow> d | Null \<Rightarrow> d | _ \<Rightarrow> v)"

definition index_dlat :: "js \<Rightarrow> js" where
  "index_dlat idx = field_or (get_opt (get_opt idx ''cell'') ''dlat'') (Num (Fin 2))"

definition index_dlon :: "js \<Rightarrow> js" where
  "index_dlon idx = field_or (get_opt (get_opt idx ''cell'') ''dlon'') (Num (Fin 2))"

definition index_vmin :: "js \<Rightarrow> js" where
  "index_vmin idx = field_or (get_opt (get_opt idx ''range'') ''vmin'') (Num (Fin 0))"

definition index_vmax :: "js \<Rightarrow> js" where
  "index_vmax idx = field_or (get_opt (get_opt idx ''range'') ''vmax'') (Num (Fin 1))"

definition index_unit :: "js \<Rightarrow> js" where
  "index_unit idx = field_or (get_opt idx ''unit'') (Str [])"

fun is_num :: "js \<Rightarrow> bool" where
  "is_num (Num _) = True"
| "is_num _ = False"

text \<open>
  The rectangle a cell is to be drawn as: from its corner \<open>(lat, lon)\<close> to
  \<open>(lat + dlat, lon + dlon)\<close>, filled with the colour of its value in the range of the
  index, the tooltip showing the value with two decimals and the unit.
\<close>

definition drawn_rect :: "env \<Rightarrow> js \<Rightarrow> js \<Rightarrow> rect" where
  "drawn_rect en idx c =
     \<lparr>corner1 = (get_opt c ''lat'', get_opt c ''lon''),
      corner2 = (js_add en (get_opt c ''lat'') (index_dlat idx),
                 js_add en (get_opt c ''lon'') (index_dlon idx)),
      fillColor = colorScale (toNumber en (get_opt c ''val'')) (toNumber en (index_vmin idx))
                    (toNumber en (index_vmax idx)),
      tooltip = toFixed2 en (toNumber en (get_opt c ''val'')) @ '' '' @ toString en (index_unit idx)\<rparr>"

text \<open>The legend to be written for the date \<open>d\<close> in its hyphenated form.\<close>

definition drawn_legend :: "env \<Rightarrow> js \<Rightarrow> state \<Rightarrow> string \<Rightarrow> legend" where
  "drawn_legend en idx s d =
     LegendHtml (toUpperCase (currentKind s)) d (timeLabel s)
       (toFixed2 en (toNumber en (index_vmin idx))) (toFixed2 en (toNumber en (index_vmax idx)))
       (toString en (index_unit idx))"

text \<open>A date of the calendar with a four-digit year, and its two written forms.\<close>

definition calendar_date :: "js_date \<Rightarrow> bool" where
  "calendar_date d =
     (0 \<le> year d \<and> year d \<le> 9999 \<and> 1 \<le> month d \<and> month d \<le> 12 \<and> 1 \<le> day d \<and> day d \<le> 31)"

definition utc_folder :: "js_date \<Rightarrow> string" where
  "utc_folder d = pad 4 (nat (year d)) @ pad 2 (month d) @ pad 2 (day d)"

definition utc_iso :: "js_date \<Rightarrow> string" where
  "utc_iso d = pad 4 (nat (year d)) @ ''-'' @ pad 2 (month d) @ ''-'' @ pad 2 (day d)"

section \<open>Example inputs\<close>

text \<open>
  A day with two times and one cell, as in the scenario of the specification: the index
  lists \<open>0000\<close> and \<open>1200\<close> with the range 0 to 10, and the snapshot of \<open>1200\<close> has the
  cell \<open>(0, 0)\<close> with the value 5. Every other resource is answered with 404.
\<close>

definition ex_index :: js where
  "ex_index =
     Obj [(''times_utc'', Arr [Str ''0000'', Str ''1200'']),
          (''range'', Obj [(''vmin'', Num (Fin 0)), (''vmax'', Num (Fin 10))])]"

definition ex_grid :: js where
  "ex_grid =
     Obj [(''cells'', Arr [Obj [(''lat'', Num (Fin 0)), (''lon'', Num (Fin 0)),
                                (''val'', Num (Fin 5))]])]"

definition ex_fetch :: "string \<Rightarrow> response" where
  "ex_fetch url =
     (if url = ''./data/latest.json'' then Response 200 (Inr (Obj [(''date'', Str ''20240101'')]))
      else if url = ''./data/20240101/tec/index.json'' then Response 200 (Inr ex_index)
      else if url = ''./data/20240101/tec/1200.json'' then Response 200 (Inr ex_grid)
      else Response 404 (Inl (SyntaxError ''Unexpected token <'')))"

text \<open>Five past eleven in the evening of 3 November 2026 in UTC, on a machine nine hours
  ahead, where the local date is already the fourth.\<close>

definition ex_clock :: js_date where
  "ex_clock =
     \<lparr>year = 2026, month = 11, day = 3, hours = 23, minutes = 5, seconds = 9, millis = 7,
      timezoneOffset = - 540\<rparr>"

definition ex_env :: "(string \<Rightarrow> response) \<Rightarrow> env" where
  "ex_env f =
     \<lparr>fetch = f, clock = ex_clock, numberToString = (\<lambda>r. ''1e+21''),
      stringToNumber = (\<lambda>t. NaN)\<rparr>"

text \<open>A page showing the first of January 2024 with the slider moved to 7.\<close>

definition ex_state :: state where
  "ex_state =
     \<lparr>currentDate = Str ''20240101'', currentKind = ''tec'', times_var = Arr [],
      dateInput = ''2024-01-01'',
      timeSlider = \<lparr>slider_min = ''0'', slider_max = ''0'', slider_value = ''7''\<rparr>,
      timeLabel = [], statusEl = [], legendBody = LegendText [], gridLayer = [], requests = []\<rparr>"

text \<open>The same page with the slider at 0, whose snapshot \<open>0000\<close> is not there.\<close>

definition ex_state0 :: state where
  "ex_state0 = ex_state\<lparr>timeSlider := \<lparr>slider_min = ''0'', slider_max = ''1'', slider_value = ''0''\<rparr>\<rparr>"

text \<open>An index with an empty list of times, an index without the list, a server that
  answers 404 to everything, and a network that is down.\<close>

definition ex_fetch_empty :: "string \<Rightarrow> response" where
  "ex_fetch_empty url =
     (if url = ''./data/20240101/tec/index.json'' then Response 200 (Inr (Obj [(''times_utc'', Arr [])]))
      else Response 404 (Inl (SyntaxError ''Unexpected token <'')))"

definition ex_fetch_bare :: "string \<Rightarrow> response" where
  "ex_fetch_bare url =
     (if url = ''./data/20240101/tec/index.json'' then Response 200 (Inr (Obj [(''unit'', Str ''TECU'')]))
      else Response 404 (Inl (SyntaxError ''Unexpected token <'')))"

definition ex_fetch_404 :: "string \<Rightarrow> response" where
  "ex_fetch_404 url = Response 404 (Inl (SyntaxError ''Unexpected token <''))"

definition ex_fetch_down :: "string \<Rightarrow> response" where
  "ex_fetch_down url = Rejected (TypeError ''Failed to fetch'')"

text \<open>The rectangle of the example cell.\<close>

definition ex_rect :: rect where
  "ex_rect = \<lparr>corner1 = (Num (Fin 0), Num (Fin 0)), corner2 = (Num (Fin 2), Num (Fin 2)),
              fillColor = Rgba (Fin 128) (Fin 0) (Fin 128) (Fin (55 / 100)), tooltip = ''5.00 ''\<rparr>"

text \<open>A snapshot with a second cell, at \<open>(2, 4)\<close> with the value 10, and its rectangle.\<close>

definition ex_grid2 :: js where
  "ex_grid2 =
     Obj [(''cells'', Arr [Obj [(''lat'', Num (Fin 0)), (''lon'', Num (Fin 0)),
                                (''val'', Num (Fin 5))],
                           Obj [(''lat'', Num (Fin 2)), (''lon'', Num (Fin 4)),
                                (''val'', Num (Fin 10))]])]"

text \<open>Its cells, and an index that gives only the height of a cell.\<close>

definition ex_index_dlat :: js where
  "ex_index_dlat = Obj [(''cell'', Obj [(''dlat'', Num (Fin 1))])]"

definition ex_cells2 :: "js list" where
  "ex_cells2 = [Obj [(''lat'', Num (Fin 0)), (''lon'', Num (Fin 0)), (''val'', Num (Fin 5))],
                Obj [(''lat'', Num (Fin 2)), (''lon'', Num (Fin 4)), (''val'', Num (Fin 10))]]"

definition ex_rect2 :: rect where
  "ex_rect2 = \<lparr>corner1 = (Num (Fin 2), Num (Fin 4)), corner2 = (Num (Fin 4), Num (Fin 6)),
               fillColor = Rgba (Fin 255) (Fin 0) (Fin 0) (Fin (55 / 100)), tooltip = ''10.00 ''\<rparr>"

section \<open>Properties of the colour scale\<close>

lemma overflow_at_big: "1000 < overflow_at"
  by (simp add: overflow_at_def)

lemma fin_small: "\<bar>r\<bar> < overflow_at \<Longrightarrow> fin r = Fin r"
  by (auto simp: fin_def)

lemma num_sub_Fin: "num_sub (Fin a) (Fin b) = fin (a - b)"
  by (simp add: num_sub_def)

lemma clamp_fin: "num_max (Fin 0) (num_min (Fin 1) (fin q)) = Fin (max 0 (min 1 q))"
  using overflow_at_big by (auto simp: fin_def)

lemma norm_x:
  assumes "lo \<noteq> hi" and "\<bar>hi - lo\<bar> < overflow_at"
  shows "num_max (Fin 0) (num_min (Fin 1)
           (num_div (num_sub (Fin v) (Fin lo)) (num_or (num_sub (Fin hi) (Fin lo)) (Fin 1))))
         = Fin (unit_x v lo hi)"
proof -
  let ?d = "hi - lo"
  have den: "num_or (num_sub (Fin hi) (Fin lo)) (Fin 1) = Fin ?d"
    using assms by (simp add: num_sub_Fin fin_small num_or_def)
  have big: "1000 < overflow_at" by (rule overflow_at_big)
  consider (up) "overflow_at \<le> v - lo" | (down) "v - lo \<le> - overflow_at"
    | (mid) "\<bar>v - lo\<bar> < overflow_at" by linarith
  then show ?thesis
  proof cases
    case up
    then have n: "num_sub (Fin v) (Fin lo) = PosInf" by (simp add: num_sub_Fin fin_def)
    show ?thesis
    proof (cases "0 < ?d")
      case True
      with up assms(2) have "?d \<le> v - lo" by linarith
      with True have "1 \<le> (v - lo) / ?d" by (simp add: le_divide_eq)
      then have "unit_x v lo hi = 1" by (simp add: unit_x_def)
      then show ?thesis using True by (simp add: den n inf_of_sign_def)
    next
      case False
      with assms(1) have neg: "?d < 0" by simp
      from up big have "0 < v - lo" by linarith
      with neg have "(v - lo) / ?d \<le> 0" by (simp add: divide_le_0_iff)
      then have "unit_x v lo hi = 0" by (simp add: unit_x_def)
      then show ?thesis using neg by (simp add: den n inf_of_sign_def)
    qed
  next
    case down
    with big have n: "num_sub (Fin v) (Fin lo) = NegInf" by (simp add: num_sub_Fin fin_def)
    show ?thesis
    proof (cases "0 < ?d")
      case True
      from down big have "v - lo < 0" by linarith
      with True have "(v - lo) / ?d \<le> 0" by (simp add: divide_le_0_iff)
      then have "unit_x v lo hi = 0" by (simp add: unit_x_def)
      then show ?thesis using True by (simp add: den n inf_of_sign_def)
    next
      case False
      with assms(1) have neg: "?d < 0" by simp
      from down assms(2) neg have "v - lo \<le> ?d" by linarith
      with neg have "1 \<le> (v - lo) / ?d" by (simp add: le_divide_eq)
      then have "unit_x v lo hi = 1" by (simp add: unit_x_def)
      then show ?thesis using neg by (simp add: den n inf_of_sign_def)
    qed
  next
    case mid
    then have n: "num_sub (Fin v) (Fin lo) = Fin (v - lo)" by (simp add: num_sub_Fin fin_small)
    from assms(1) have "?d \<noteq> 0" by simp
    then show ?thesis by (simp add: den n clamp_fin unit_x_def)
  qed
qed

lemma unit_x_range: "0 \<le> unit_x v lo hi \<and> unit_x v lo hi \<le> 1"
  by (simp add: unit_x_def)

lemma channel:
  assumes "0 \<le> x" and "x \<le> 1"
  shows "num_round (num_mul (Fin 255) (Fin x)) = Fin (of_int (round (255 * x)))"
    and "num_round (num_mul (Fin 255) (num_sub (Fin 1) (Fin x))) = Fin (of_int (round (255 * (1 - x))))"
proof -
  have big: "1000 < overflow_at" by (rule overflow_at_big)
  have r: "0 \<le> y \<Longrightarrow> y \<le> 1 \<Longrightarrow> num_round (num_mul (Fin 255) (Fin y)) = Fin (of_int (round (255 * y)))" for y :: real
  proof -
    assume y: "0 \<le> y" "y \<le> 1"
    then have a: "\<bar>255 * y\<bar> < overflow_at" using big by (auto simp: abs_if)
    from y have "0 \<le> 255 * y" "255 * y \<le> 255" by simp_all
    then have "round (0::real) \<le> round (255 * y)" "round (255 * y) \<le> round (255::real)"
      by (intro round_mono; simp)+
    then have "\<bar>real_of_int (round (255 * y))\<bar> < overflow_at" using big by simp
    with a show ?thesis by (simp add: fin_small)
  qed
  show "num_round (num_mul (Fin 255) (Fin x)) = Fin (of_int (round (255 * x)))"
    using assms by (rule r)
  have "\<bar>1 - x\<bar> < overflow_at" using assms big by (auto simp: abs_if)
  then have "num_sub (Fin 1) (Fin x) = Fin (1 - x)" by (simp add: num_sub_Fin fin_small)
  then show "num_round (num_mul (Fin 255) (num_sub (Fin 1) (Fin x))) = Fin (of_int (round (255 * (1 - x))))"
    using r [of "1 - x"] assms by simp
qed

lemma colorScale_Fin:
  assumes "lo \<noteq> hi" and "\<bar>hi - lo\<bar> < overflow_at"
  shows "colorScale (Fin v) (Fin lo) (Fin hi) =
     Rgba (Fin (of_int (round (255 * unit_x v lo hi)))) (Fin 0)
          (Fin (of_int (round (255 * (1 - unit_x v lo hi))))) (Fin (55 / 100))"
  using unit_x_range [of v lo hi]
  by (simp del: num_mul.simps add: colorScale_def Let_def norm_x [OF assms] channel)

text \<open>
  C6, as stated: for finite \<open>value\<close>, \<open>vmin\<close>, \<open>vmax\<close> with \<open>vmin \<noteq> vmax\<close> the red channel
  does not decrease when \<open>value\<close> grows. This fails for a range given upside down:
  with \<open>vmin = 1\<close> and \<open>vmax = 0\<close> the value 0 is drawn with red 255 and the larger
  value 1 with red 0.
\<close>

theorem colorScale_inverted_range:
  "(1::real) \<noteq> 0 \<and> (0::real) \<le> 1
   \<and> colorScale (Fin 0) (Fin 1) (Fin 0) = Rgba (Fin 255) (Fin 0) (Fin 0) (Fin (55 / 100))
   \<and> colorScale (Fin 1) (Fin 1) (Fin 0) = Rgba (Fin 0) (Fin 0) (Fin 255) (Fin (55 / 100))
   \<and> \<not> num_le (red (colorScale (Fin 0) (Fin 1) (Fin 0))) (red (colorScale (Fin 1) (Fin 1) (Fin 0)))"
proof -
  have "(1::real) \<noteq> 0" "\<bar>0 - (1::real)\<bar> < overflow_at" using overflow_at_big by simp_all
  note c = colorScale_Fin [OF this]
  show ?thesis by (simp add: c unit_x_def)
qed

text \<open>
  A range so wide that \<open>vmax - vmin\<close> overflows gives no channel at all at its upper end:
  the quotient of two infinities is \<^verbatim>\<open>NaN\<close>.
\<close>

lemma colorScale_overflow:
  "colorScale (Fin 0) (Fin (- (10 ^ 308))) (Fin (10 ^ 308)) = Rgba (Fin 0) (Fin 0) (Fin 255) (Fin (55 / 100))
   \<and> colorScale (Fin (10 ^ 308)) (Fin (- (10 ^ 308))) (Fin (10 ^ 308)) = Rgba NaN (Fin 0) NaN (Fin (55 / 100))"
  by (simp add: colorScale_def Let_def num_sub_def fin_def overflow_at_def num_or_def)

text \<open>
  C6, amended: for finite \<open>value\<close>, \<open>vmin\<close>, \<open>vmax\<close> with \<open>vmin < vmax\<close> and a difference
  \<open>vmax - vmin\<close> that does not overflow, the red channel of \<open>colorScale\<close> does not decrease
  and the blue channel does not increase when \<open>value\<close> grows.
\<close>

theorem colorScale_monotone:
  assumes "lo < hi" and "hi - lo < overflow_at" and "v1 \<le> v2"
  shows "num_le (red (colorScale (Fin v1) (Fin lo) (Fin hi)))
                (red (colorScale (Fin v2) (Fin lo) (Fin hi)))
         \<and> num_le (blue (colorScale (Fin v2) (Fin lo) (Fin hi)))
                  (blue (colorScale (Fin v1) (Fin lo) (Fin hi)))"
proof -
  have "(v1 - lo) / (hi - lo) \<le> (v2 - lo) / (hi - lo)"
    using assms by (simp add: divide_right_mono)
  then have le: "unit_x v1 lo hi \<le> unit_x v2 lo hi"
    by (auto simp: unit_x_def)
  have r: "round (255 * unit_x v1 lo hi) \<le> round (255 * unit_x v2 lo hi)"
    using le by (intro round_mono) simp
  have b: "round (255 * (1 - unit_x v2 lo hi)) \<le> round (255 * (1 - unit_x v1 lo hi))"
    using le by (intro round_mono) simp
  from assms(1,2) have ne: "lo \<noteq> hi" "\<bar>hi - lo\<bar> < overflow_at" by simp_all
  show ?thesis
    using r b by (simp add: colorScale_Fin [OF ne])
qed

theorem colorScale_monotone_witness:
  "(0::real) < 10 \<and> (10::real) - 0 < overflow_at \<and> (2::real) \<le> 5
   \<and> num_le (red (colorScale (Fin 2) (Fin 0) (Fin 10))) (red (colorScale (Fin 5) (Fin 0) (Fin 10)))
   \<and> num_le (blue (colorScale (Fin 5) (Fin 0) (Fin 10))) (blue (colorScale (Fin 2) (Fin 0) (Fin 10)))"
  using colorScale_monotone [of 0 10 2 5] overflow_at_big by simp

text \<open>
  C7: for every value that is not finite (\<^verbatim>\<open>NaN\<close> or an infinity) and every range,
  \<open>colorScale\<close> returns the fully transparent colour \<^verbatim>\<open>rgba(0,0,0,0)\<close>.
\<close>

theorem colorScale_not_finite:
  "\<not> is_finite v \<Longrightarrow>
   colorScale v vmin vmax = Rgba (Fin 0) (Fin 0) (Fin 0) (Fin 0)
   \<and> alpha (colorScale v vmin vmax) = Fin 0"
  by (simp add: colorScale_def)

theorem colorScale_not_finite_witness:
  "\<not> is_finite NaN \<and> colorScale NaN (Fin 0) (Fin 10) = Rgba (Fin 0) (Fin 0) (Fin 0) (Fin 0)
   \<and> \<not> is_finite PosInf \<and> alpha (colorScale PosInf NaN NegInf) = Fin 0"
  using colorScale_not_finite [of NaN "Fin 0" "Fin 10"] colorScale_not_finite [of PosInf NaN NegInf]
  by simp

lemma fin_zero: "fin 0 = Fin 0"
  using overflow_at_big by (simp add: fin_def)

lemma div_one: "num_div y (Fin 1) = (case y of Fin r \<Rightarrow> fin r | _ \<Rightarrow> y)"
  by (cases y) (simp_all add: inf_of_sign_def)

lemma fin_fin: "(case fin r of Fin q \<Rightarrow> fin q | _ \<Rightarrow> fin r) = fin r"
  by (simp add: fin_def)

text \<open>
  C8: when \<open>vmax == vmin\<close> the divisor is 1: for a finite value the colour is computed
  from \<open>x = clamp(value - vmin, 0, 1)\<close>, and no case is left without a result.
\<close>

theorem colorScale_degenerate_range:
  "is_finite v \<Longrightarrow> num_eq lo hi \<Longrightarrow>
   colorScale v lo hi =
     Rgba (num_round (num_mul (Fin 255) (clamp01 (num_sub v lo)))) (Fin 0)
          (num_round (num_mul (Fin 255) (num_sub (Fin 1) (clamp01 (num_sub v lo)))))
          (Fin (55 / 100))"
  by (cases v; cases lo; cases hi)
     (simp_all add: colorScale_def clamp01_def num_sub_def num_or_def Let_def inf_of_sign_def
        fin_zero div_one fin_fin)

theorem colorScale_degenerate_range_witness:
  "is_finite (Fin (7 / 2)) \<and> num_eq (Fin 3) (Fin 3)
   \<and> colorScale (Fin (7 / 2)) (Fin 3) (Fin 3) = Rgba (Fin 128) (Fin 0) (Fin 128) (Fin (55 / 100))"
  using colorScale_degenerate_range [of "Fin (7 / 2)" "Fin 3" "Fin 3"] overflow_at_big
  by (simp add: clamp01_def num_sub_Fin round_def fin_def)

section \<open>Properties of the date conversions\<close>

lemma digit_not_dash: "is_digit c \<Longrightarrow> c \<noteq> CHR ''-''"
  by (auto simp: is_digit_def)

lemma length8E:
  assumes "length x = 8"
  obtains a b c d e f g h where "x = [a, b, c, d, e, f, g, h]"
proof -
  from assms obtain a x1 where "x = a # x1" "length x1 = 7" by (cases x) auto
  moreover then obtain b x2 where "x1 = b # x2" "length x2 = 6" by (cases x1) auto
  moreover then obtain c x3 where "x2 = c # x3" "length x3 = 5" by (cases x2) auto
  moreover then obtain d x4 where "x3 = d # x4" "length x4 = 4" by (cases x3) auto
  moreover then obtain e x5 where "x4 = e # x5" "length x5 = 3" by (cases x4) auto
  moreover then obtain f x6 where "x5 = f # x6" "length x6 = 2" by (cases x5) auto
  moreover then obtain g x7 where "x6 = g # x7" "length x7 = 1" by (cases x6) auto
  moreover then obtain h where "x7 = [h]" by (cases x7) auto
  ultimately show ?thesis using that by simp
qed

lemma folder_roundtrip:
  assumes "is_folder_date x"
  shows "ymdToFolder (folderToISODate_str x) = x" and "is_iso_date (folderToISODate_str x)"
proof -
  from assms have len: "length x = 8" and dig: "list_all is_digit x"
    by (simp_all add: is_folder_date_def)
  from len obtain a b c d e f g h where x: "x = [a, b, c, d, e, f, g, h]"
    by (rule length8E)
  from dig x have nd: "a \<noteq> CHR ''-''" "b \<noteq> CHR ''-''" "c \<noteq> CHR ''-''" "d \<noteq> CHR ''-''"
      "e \<noteq> CHR ''-''" "f \<noteq> CHR ''-''" "g \<noteq> CHR ''-''" "h \<noteq> CHR ''-''"
    by (simp_all add: digit_not_dash)
  show "ymdToFolder (folderToISODate_str x) = x"
    using nd by (simp add: x ymdToFolder_def folderToISODate_str_def slice_def)
  show "is_iso_date (folderToISODate_str x)"
    using dig by (simp add: x is_iso_date_def folderToISODate_str_def slice_def)
qed

lemma iso_roundtrip:
  assumes "is_iso_date y"
  shows "folderToISODate_str (ymdToFolder y) = y" and "is_folder_date (ymdToFolder y)"
proof -
  from assms have len: "length y = 10" by (simp add: is_iso_date_def)
  then obtain a y1 where y1: "y = a # y1" "length y1 = 9" by (cases y) auto
  then obtain b y2 where y2: "y1 = b # y2" "length y2 = 8" by (cases y1) auto
  from y2(2) obtain c d e f g h i j where y3: "y2 = [c, d, e, f, g, h, i, j]"
    by (rule length8E)
  have y: "y = [a, b, c, d, e, f, g, h, i, j]" by (simp add: y1 y2 y3)
  from assms have dig: "is_digit a" "is_digit b" "is_digit c" "is_digit d" "e = CHR ''-''"
     "is_digit f" "is_digit g" "h = CHR ''-''" "is_digit i" "is_digit j"
    by (simp_all add: y is_iso_date_def)
  then have nd: "a \<noteq> CHR ''-''" "b \<noteq> CHR ''-''" "c \<noteq> CHR ''-''" "d \<noteq> CHR ''-''"
      "f \<noteq> CHR ''-''" "g \<noteq> CHR ''-''" "i \<noteq> CHR ''-''" "j \<noteq> CHR ''-''"
    by (simp_all add: digit_not_dash)
  show "folderToISODate_str (ymdToFolder y) = y"
    using nd dig(5,8) by (simp add: y ymdToFolder_def folderToISODate_str_def slice_def)
  show "is_folder_date (ymdToFolder y)"
    using nd dig by (simp add: y ymdToFolder_def is_folder_date_def)
qed

text \<open>
  C9: the two conversions are inverse to each other on well-formed dates: an eight-digit
  date converted to the hyphenated form and back is itself, and a hyphenated date
  converted to eight digits and back is itself. Both are functions of the characters
  alone.
\<close>

theorem date_roundtrip:
  "(is_folder_date x \<longrightarrow>
      (\<exists>y. folderToISODate en (Str x) = Inr y \<and> is_iso_date y \<and> ymdToFolder y = x))
   \<and> (is_iso_date y \<longrightarrow>
      is_folder_date (ymdToFolder y) \<and> folderToISODate en (Str (ymdToFolder y)) = Inr y)"
  by (simp add: folderToISODate_def folder_roundtrip iso_roundtrip)

theorem date_roundtrip_witness:
  "is_folder_date ''20240105'' \<and> is_iso_date ''2024-01-05''
   \<and> folderToISODate (ex_env ex_fetch) (Str ''20240105'') = Inr ''2024-01-05''
   \<and> ymdToFolder ''2024-01-05'' = ''20240105''"
  using date_roundtrip [of "''20240105''" "ex_env ex_fetch" "''2024-01-05''"]
  by (simp add: is_folder_date_def is_iso_date_def is_digit_def ymdToFolder_def)

section \<open>Evaluating the examples\<close>

lemma replicate_numeral_eval: "replicate (numeral k) x = x # replicate (pred_numeral k) x"
  by (simp add: numeral_eq_Suc)

lemmas str_eval = dec.simps dec_int_def digit_char_def pad_def replicate_numeral_eval
  toUpperCase_def upper_char_def slice_def

lemmas parse_eval = clampIndex_def parseInt10_def is_space_def is_digit_def digits_val_def
  digit_val_def

lemmas ex_defs = ex_env_def ex_fetch_def ex_state_def ex_state0_def ex_index_def ex_grid_def
  ex_fetch_empty_def ex_fetch_bare_def ex_fetch_404_def ex_fetch_down_def ex_clock_def ex_rect_def
  ex_grid2_def ex_rect2_def
  latest_url_def index_url_def grid_url_def res_ok_def

lemmas run_eval = refresh_try_def loadLayerIndex_def loadGrid_def fetchJson_def setStatus_def
  showTime_def noTimes_def timeLabelText_def js_index_def js_or_def Let_def

lemmas index_defs = field_or_def index_dlat_def index_dlon_def index_vmin_def index_vmax_def
  index_unit_def drawn_rect_def drawn_legend_def

lemmas index_defs2 = index_defs ex_index_dlat_def

lemmas draw_eval = drawGrid_def legendHtml_def folderToISODate_def folderToISODate_str_def
  toFixed_def toFixed2_def iterate_def cellRect_def get_prop_def js_add_def js_coalesce_def js_or_def
  colorScale_def num_sub_Fin num_or_def round_def Let_def fin_def overflow_at_def

section \<open>Properties of the decimal digits\<close>

lemma digit_char_is_digit: "d < 10 \<Longrightarrow> is_digit (digit_char d)"
proof -
  assume "d < 10"
  then have "d \<in> {0, 1, 2, 3, 4, 5, 6, 7, 8, 9}" by auto
  then show ?thesis by (auto simp: digit_char_def is_digit_def)
qed

lemma dec_all_digits: "list_all is_digit (dec n)"
proof (induction n rule: dec.induct)
  case (1 n)
  show ?case
  proof (cases "n < 10")
    case True
    then show ?thesis by (subst dec.simps) (simp add: digit_char_is_digit)
  next
    case False
    with 1 have "list_all is_digit (dec (n div 10))" by simp
    moreover have "is_digit (digit_char (n mod 10))" by (simp add: digit_char_is_digit)
    ultimately show ?thesis using False by (subst dec.simps) simp
  qed
qed

lemma length_dec: "n < 10 ^ k \<Longrightarrow> 0 < k \<Longrightarrow> length (dec n) \<le> k"
proof (induction n arbitrary: k rule: dec.induct)
  case (1 n)
  show ?case
  proof (cases "n < 10")
    case True
    with 1(3) show ?thesis by (subst dec.simps) simp
  next
    case False
    from 1(3) obtain j where k: "k = Suc j" by (cases k) auto
    from False 1(2) k have "0 < j" by (cases j) auto
    moreover from 1(2) k have "n div 10 < 10 ^ j"
      by (simp add: less_mult_imp_div_less mult.commute)
    ultimately have "length (dec (n div 10)) \<le> j" using 1(1) False by simp
    then show ?thesis using False k by (subst dec.simps) simp
  qed
qed

lemma length_pad: "n < 10 ^ w \<Longrightarrow> 0 < w \<Longrightarrow> length (pad w n) = w"
  using length_dec [of n w] by (simp add: pad_def)

lemma pad_all_digits: "list_all is_digit (pad w n)"
proof -
  have "list_all is_digit (replicate k CHR ''0'')" for k
    by (induction k) (simp_all add: is_digit_def)
  then show ?thesis by (simp add: pad_def dec_all_digits)
qed

lemma no_dash: "list_all is_digit t \<Longrightarrow> filter (\<lambda>c. c \<noteq> CHR ''-'') t = t"
  by (induction t) (auto simp: is_digit_def)

text \<open>What \<open>parseInt10\<close> and \<open>clampIndex\<close> make of a value written by \<open>dec\<close>.\<close>

lemma digit_val_digit_char: "d < 10 \<Longrightarrow> digit_val (digit_char d) = d"
proof -
  assume "d < 10"
  then have "d \<in> {0, 1, 2, 3, 4, 5, 6, 7, 8, 9}" by auto
  then show ?thesis by (auto simp: digit_char_def digit_val_def)
qed

lemma digits_val_snoc: "digits_val (ds @ [c]) = 10 * digits_val ds + digit_val c"
  by (simp add: digits_val_def)

lemma digits_val_dec: "digits_val (dec n) = n"
proof (induction n rule: dec.induct)
  case (1 n)
  show ?case
  proof (cases "n < 10")
    case True
    then show ?thesis
      by (subst dec.simps) (simp add: digits_val_def digit_val_digit_char)
  next
    case False
    with 1 have "digits_val (dec (n div 10)) = n div 10" by simp
    then show ?thesis using False
      by (subst dec.simps) (simp add: digits_val_snoc digit_val_digit_char)
  qed
qed

lemma dec_not_Nil: "dec n \<noteq> []"
  by (subst dec.simps) simp

lemma digit_plain: "is_digit c \<Longrightarrow> \<not> is_space c \<and> c \<noteq> CHR ''-'' \<and> c \<noteq> CHR ''+''"
  by (auto simp: is_digit_def is_space_def)

lemma dec_hd_digit: "is_digit (hd (dec n))"
  using dec_all_digits [of n] dec_not_Nil [of n] by (cases "dec n") simp_all

lemma dec_trim: "dropWhile is_space (dec n) = dec n"
  using dec_hd_digit [of n] dec_not_Nil [of n] digit_plain
  by (cases "dec n") auto

lemma dec_digits_all: "takeWhile is_digit (dec n) = dec n"
  using dec_all_digits [of n] by (simp add: takeWhile_eq_all_conv list_all_iff)

lemma parseInt10_dec:
  "parseInt10 (dec n) = (if n \<ge> 2 ^ 1024 - 2 ^ 970 then PosInf else Fin (of_nat n))"
  using dec_hd_digit [of n] digit_plain [of "hd (dec n)"]
  by (simp add: parseInt10_def Let_def dec_trim dec_digits_all digits_val_dec dec_not_Nil)

lemma parseInt10_minus_dec:
  "parseInt10 (CHR ''-'' # dec n) = (if n \<ge> 2 ^ 1024 - 2 ^ 970 then NegInf else Fin (- of_nat n))"
  by (simp add: parseInt10_def Let_def is_space_def dec_digits_all digits_val_dec dec_not_Nil)

lemma parseInt10_no_digit:
  assumes "v \<noteq> []" and "\<not> is_space (hd v)" and "hd v \<noteq> CHR ''-''" and "hd v \<noteq> CHR ''+''"
    and "\<not> is_digit (hd v)"
  shows "parseInt10 v = NaN"
  using assms by (cases v) (simp_all add: parseInt10_def Let_def)

lemma clampIndex_dec:
  "n < 2 ^ 1024 - 2 ^ 970 \<Longrightarrow> 0 < len \<Longrightarrow> clampIndex len (dec n) = min (int len - 1) (int n)"
  by (simp add: clampIndex_def Let_def parseInt10_dec dec_not_Nil)

lemma clampIndex_minus_dec: "clampIndex len (CHR ''-'' # dec n) = 0"
proof -
  have "\<lfloor>- real n\<rfloor> = - int n"
    by (metis floor_of_int of_int_minus of_int_of_nat_eq)
  then show ?thesis
    by (simp add: clampIndex_def Let_def parseInt10_minus_dec)
qed

lemma clampIndex_empty: "clampIndex len [] = 0"
  by (simp add: clampIndex_def Let_def parseInt10_def is_space_def is_digit_def digits_val_def
      digit_val_def)

lemma clampIndex_no_digit:
  assumes "v \<noteq> []" and "\<not> is_space (hd v)" and "hd v \<noteq> CHR ''-''" and "hd v \<noteq> CHR ''+''"
    and "\<not> is_digit (hd v)"
  shows "clampIndex len v = 0"
  using assms by (simp add: clampIndex_def Let_def parseInt10_no_digit)

section \<open>Properties of the render pipeline\<close>

lemma fetchJson_fails:
  "fetch_fails en url \<Longrightarrow> \<exists>e. fetchJson en url s = (Inl e, s\<lparr>requests := requests s @ [url]\<rparr>)"
  by (auto simp: fetch_fails_def fetchJson_def Let_def isl_def split: response.splits)

lemma fetchJson_ok:
  "fetch en url = Response st (Inr j) \<Longrightarrow> res_ok st \<Longrightarrow>
     fetchJson en url s = (Inr j, s\<lparr>requests := requests s @ [url]\<rparr>)"
  by (simp add: fetchJson_def Let_def)

lemma fetchJson_state:
  "snd (fetchJson en url s) = s\<lparr>requests := requests s @ [url]\<rparr>"
  by (simp add: fetchJson_def Let_def split: response.splits)

lemma fetchJson_fails_iff:
  "isl (fst (fetchJson en url s)) = fetch_fails en url"
  by (simp add: fetchJson_def fetch_fails_def Let_def split: response.splits)

lemma fetch_succeeds:
  assumes "\<not> fetch_fails en url"
  obtains st j where "fetch en url = Response st (Inr j)" and "res_ok st"
proof (cases "fetch en url")
  case (Rejected e)
  with assms show ?thesis by (simp add: fetch_fails_def)
next
  case (Response st body)
  with assms have ok: "res_ok st" and nb: "\<not> isl body" by (simp_all add: fetch_fails_def)
  from nb obtain j where "body = Inr j" by (cases body) simp_all
  with Response ok that show ?thesis by simp
qed

lemma clampIndex_range: "0 < n \<Longrightarrow> 0 \<le> clampIndex n v \<and> clampIndex n v < int n"
  by (simp add: clampIndex_def Let_def)

lemma js_index_in: "0 \<le> i \<Longrightarrow> i < int (length xs) \<Longrightarrow> js_index xs i = xs ! nat i"
  by (simp add: js_index_def)

lemma drawCells_state:
  "drawCells en a b lo hi u cs s = (r, s') \<Longrightarrow> s' = s\<lparr>gridLayer := gridLayer s'\<rparr>"
proof (induction cs arbitrary: s)
  case Nil
  then show ?case by simp
next
  case (Cons c cs)
  show ?case
  proof (cases "cellRect en a b lo hi u c")
    case (Inl e)
    with Cons.prems show ?thesis by simp
  next
    case (Inr rc)
    with Cons.prems have "drawCells en a b lo hi u cs (s\<lparr>gridLayer := gridLayer s @ [rc]\<rparr>) = (r, s')"
      by simp
    from Cons.IH [OF this] show ?thesis by (cases s, cases s') simp
  qed
qed

lemma drawCells_ok:
  "drawCells en a b lo hi u cs s = (None, s') \<Longrightarrow>
     \<exists>rs. gridLayer s' = gridLayer s @ rs \<and> map (cellRect en a b lo hi u) cs = map Inr rs"
proof (induction cs arbitrary: s)
  case Nil
  then show ?case by simp
next
  case (Cons c cs)
  show ?case
  proof (cases "cellRect en a b lo hi u c")
    case (Inl e)
    with Cons.prems show ?thesis by simp
  next
    case (Inr rc)
    with Cons.prems have "drawCells en a b lo hi u cs (s\<lparr>gridLayer := gridLayer s @ [rc]\<rparr>) = (None, s')"
      by simp
    from Cons.IH [OF this] obtain rs where
      "gridLayer s' = (gridLayer s @ [rc]) @ rs" "map (cellRect en a b lo hi u) cs = map Inr rs"
      by auto
    then show ?thesis using Inr by (intro exI [of _ "rc # rs"]) simp
  qed
qed

lemma drawGrid_state:
  assumes "drawGrid en grid idx s = (r, s')"
  shows "s' = s\<lparr>gridLayer := gridLayer s', legendBody := legendBody s'\<rparr>"
proof -
  show ?thesis
    using assms
    apply (simp add: drawGrid_def Let_def split: sum.splits)
      apply (cases s; cases s'; auto)[1]
     apply (cases s; cases s'; auto)[1]
    apply (drule drawCells_state)
    apply (cases s; cases s'; auto)
    done
qed


lemma drawGrid_keeps:
  "currentDate (snd (drawGrid en g i s)) = currentDate s"
  "currentKind (snd (drawGrid en g i s)) = currentKind s"
  "times_var (snd (drawGrid en g i s)) = times_var s"
  "dateInput (snd (drawGrid en g i s)) = dateInput s"
  "timeSlider (snd (drawGrid en g i s)) = timeSlider s"
  "timeLabel (snd (drawGrid en g i s)) = timeLabel s"
  "statusEl (snd (drawGrid en g i s)) = statusEl s"
  "requests (snd (drawGrid en g i s)) = requests s"
proof -
  obtain r s' where d: "drawGrid en g i s = (r, s')" by force
  note eq = drawGrid_state [OF d]
  show "currentDate (snd (drawGrid en g i s)) = currentDate s"
    using arg_cong [where f = currentDate, OF eq] by (simp add: d)
  show "currentKind (snd (drawGrid en g i s)) = currentKind s"
    using arg_cong [where f = currentKind, OF eq] by (simp add: d)
  show "times_var (snd (drawGrid en g i s)) = times_var s"
    using arg_cong [where f = times_var, OF eq] by (simp add: d)
  show "dateInput (snd (drawGrid en g i s)) = dateInput s"
    using arg_cong [where f = dateInput, OF eq] by (simp add: d)
  show "timeSlider (snd (drawGrid en g i s)) = timeSlider s"
    using arg_cong [where f = timeSlider, OF eq] by (simp add: d)
  show "timeLabel (snd (drawGrid en g i s)) = timeLabel s"
    using arg_cong [where f = timeLabel, OF eq] by (simp add: d)
  show "statusEl (snd (drawGrid en g i s)) = statusEl s"
    using arg_cong [where f = statusEl, OF eq] by (simp add: d)
  show "requests (snd (drawGrid en g i s)) = requests s"
    using arg_cong [where f = requests, OF eq] by (simp add: d)
qed

text \<open>The state in which \<open>showTime\<close> looks up the time: the slider has been set.\<close>

lemma showTime_keeps:
  "currentDate (snd (showTime en idx xs s)) = currentDate s"
  "currentKind (snd (showTime en idx xs s)) = currentKind s"
  "times_var (snd (showTime en idx xs s)) = times_var s"
  "dateInput (snd (showTime en idx xs s)) = dateInput s"
  "timeSlider (snd (showTime en idx xs s)) =
     \<lparr>slider_min = ''0'', slider_max = dec_int (int (length xs) - 1),
      slider_value = dec_int (clampIndex (length xs) (slider_value (timeSlider s)))\<rparr>"
  by (auto simp: showTime_def Let_def loadGrid_def setStatus_def fetchJson_def drawGrid_keeps
      split: sum.splits prod.splits option.splits response.splits
      dest!: arg_cong [where f = snd])


lemma refresh_try_index_fail:
  assumes "fetch_fails en (index_url en (currentDate s) (currentKind s))"
  shows "\<exists>e. refresh_try en s = (Some e, loading en s)"
proof -
  let ?s0 = "setStatus (''Loading '' @ toUpperCase (currentKind s) @ '' ''
                          @ toString en (currentDate s) @ ''...'') s"
  from fetchJson_fails [OF assms, of ?s0] obtain e where
    "fetchJson en (index_url en (currentDate s) (currentKind s)) ?s0
       = (Inl e, ?s0\<lparr>requests := requests ?s0 @ [index_url en (currentDate s) (currentKind s)]\<rparr>)"
    by blast
  then have "refresh_try en s = (Some e, loading en s)"
    by (simp add: refresh_try_def loadLayerIndex_def setStatus_def loading_def)
  then show ?thesis by blast
qed

lemma refresh_try_index_ok:
  assumes "fetch en (index_url en (currentDate s) (currentKind s)) = Response st (Inr idx)"
    and "res_ok st"
  shows "refresh_try en s =
     (case js_or (get_opt idx ''times_utc'') (Arr []) of
        Arr xs \<Rightarrow>
          if xs = [] then (None, noTimes ((loading en s)\<lparr>times_var := Arr xs\<rparr>))
          else showTime en idx xs ((loading en s)\<lparr>times_var := Arr xs\<rparr>)
      | t \<Rightarrow> (None, noTimes ((loading en s)\<lparr>times_var := t\<rparr>)))"
proof -
  let ?s0 = "setStatus (''Loading '' @ toUpperCase (currentKind s) @ '' ''
                          @ toString en (currentDate s) @ ''...'') s"
  have "fetchJson en (index_url en (currentDate s) (currentKind s)) ?s0
       = (Inr idx, ?s0\<lparr>requests := requests ?s0 @ [index_url en (currentDate s) (currentKind s)]\<rparr>)"
    using assms by (rule fetchJson_ok)
  then show ?thesis
    by (simp add: refresh_try_def loadLayerIndex_def setStatus_def loading_def Let_def
        split: js.splits)
qed

lemma refresh_no_times:
  assumes "truthy (currentDate s)"
    and "fetch en (index_url en (currentDate s) (currentKind s)) = Response st (Inr idx)"
    and "res_ok st"
    and "\<forall>x xs. get_opt idx ''times_utc'' \<noteq> Arr (x # xs)"
  shows "refresh en s =
     (None, s\<lparr>times_var := js_or (get_opt idx ''times_utc'') (Arr []),
              timeSlider := \<lparr>slider_min = ''0'', slider_max = ''0'', slider_value = ''0''\<rparr>,
              timeLabel := ''--:-- UTC'',
              statusEl := ''No times in '' @ currentKind s @ ''/index.json (yet)'',
              gridLayer := [],
              requests := requests s @ [index_url en (currentDate s) (currentKind s)]\<rparr>)"
proof -
  let ?t = "js_or (get_opt idx ''times_utc'') (Arr [])"
  have "\<forall>x xs. ?t \<noteq> Arr (x # xs)"
    using assms(4) by (simp add: js_or_def)
  then have "refresh_try en s = (None, noTimes ((loading en s)\<lparr>times_var := ?t\<rparr>))"
    unfolding refresh_try_index_ok [OF assms(2,3)]
    by (cases ?t) (auto simp: neq_Nil_conv)
  then show ?thesis
    using assms(1) by (simp add: refresh_def noTimes_def loading_def setStatus_def)
qed


lemma refresh_never_throws: "fst (refresh en s) = None"
  by (simp add: refresh_def split: prod.splits option.splits)

lemma refresh_with_times:
  assumes "truthy (currentDate s)"
    and "fetch en (index_url en (currentDate s) (currentKind s)) = Response st (Inr idx)"
    and "res_ok st"
    and "get_opt idx ''times_utc'' = Arr xs" and "xs \<noteq> []"
  shows "refresh_try en s = showTime en idx xs ((loading en s)\<lparr>times_var := Arr xs\<rparr>)"
  unfolding refresh_try_index_ok [OF assms(2,3)]
  using assms(4,5) by (simp add: js_or_def)

lemma refresh_snd:
  "truthy (currentDate s) \<Longrightarrow>
   snd (refresh en s) =
     (case fst (refresh_try en s) of
        None \<Rightarrow> snd (refresh_try en s)
      | Some e \<Rightarrow> refresh_catch e (snd (refresh_try en s)))"
  by (simp add: refresh_def split: prod.splits option.splits)

lemma refresh_catch_keeps:
  "currentDate (refresh_catch e s) = currentDate s"
  "currentKind (refresh_catch e s) = currentKind s"
  "times_var (refresh_catch e s) = times_var s"
  "timeSlider (refresh_catch e s) = timeSlider s"
  "timeLabel (refresh_catch e s) = timeLabel s"
  "requests (refresh_catch e s) = requests s"
  "gridLayer (refresh_catch e s) = []"
  "statusEl (refresh_catch e s) = ''Error: '' @ message e"
  "legendBody (refresh_catch e s) = LegendText ''Data missing or not generated yet.''"
  by (simp_all add: refresh_catch_def setStatus_def)

lemma showTime_requests:
  assumes "xs \<noteq> []"
  shows "requests (snd (showTime en idx xs s)) =
     (case timeLabelText en (xs ! nat (clampIndex (length xs) (slider_value (timeSlider s)))) of
        Inl e \<Rightarrow> requests s
      | Inr lbl \<Rightarrow> requests s @ [grid_url en (currentDate s) (currentKind s)
                      (xs ! nat (clampIndex (length xs) (slider_value (timeSlider s))))])"
proof -
  from assms have r: "0 \<le> clampIndex (length xs) (slider_value (timeSlider s))"
      "clampIndex (length xs) (slider_value (timeSlider s)) < int (length xs)"
    using clampIndex_range [of "length xs"] by simp_all
  show ?thesis
    by (auto simp: showTime_def Let_def loadGrid_def setStatus_def fetchJson_def drawGrid_keeps
        js_index_in [OF r]
        split: sum.splits prod.splits option.splits response.splits
        dest!: arg_cong [where f = snd])
qed

lemma showTime_label:
  assumes "xs \<noteq> []"
    and "timeLabelText en (xs ! nat (clampIndex (length xs) (slider_value (timeSlider s)))) = Inr lbl"
  shows "timeLabel (snd (showTime en idx xs s)) = lbl"
proof -
  from assms have r: "0 \<le> clampIndex (length xs) (slider_value (timeSlider s))"
      "clampIndex (length xs) (slider_value (timeSlider s)) < int (length xs)"
    using clampIndex_range [of "length xs"] by simp_all
  show ?thesis
    using assms(2)
    by (auto simp: showTime_def Let_def loadGrid_def setStatus_def fetchJson_def drawGrid_keeps
        js_index_in [OF r]
        split: sum.splits prod.splits option.splits response.splits
        dest!: arg_cong [where f = snd])
qed

text \<open>
  C1: whatever the slider holds, when the index lists at least one time the index used is
  clamped into \<open>[0, length - 1]\<close>, so the time looked up is an element of the list; it is
  written back to the slider and it is the one snapshot requested (none when the time
  label cannot be formed). It is the requested index, clamped: a slider holding the
  digits of \<open>k\<close> gives \<open>min (length - 1) k\<close>, the digits of \<open>k\<close> after a minus sign give 0,
  and so do an empty value and a value that starts with neither a digit, a sign nor
  white space. When the index lists no time, only the index is requested and the grid
  is empty: the index is never used.
\<close>

theorem refresh_time_index:
  assumes "truthy (currentDate s)"
    and "fetch en (index_url en (currentDate s) (currentKind s)) = Response st (Inr idx)"
    and "res_ok st"
  shows "(\<forall>xs. get_opt idx ''times_utc'' = Arr xs \<and> xs \<noteq> [] \<longrightarrow>
            (let i = clampIndex (length xs) (slider_value (timeSlider s));
                 s' = snd (refresh en s)
             in 0 \<le> i \<and> i < int (length xs) \<and> js_index xs i = xs ! nat i
                \<and> timeSlider s' = \<lparr>slider_min = ''0'', slider_max = dec_int (int (length xs) - 1),
                                     slider_value = dec_int i\<rparr>
                \<and> requests s' =
                    requests s @ index_url en (currentDate s) (currentKind s)
                      # (case timeLabelText en (xs ! nat i) of
                           Inl e \<Rightarrow> []
                         | Inr lbl \<Rightarrow> [grid_url en (currentDate s) (currentKind s) (xs ! nat i)])
                \<and> (\<forall>k. slider_value (timeSlider s) = dec k \<and> k < 2 ^ 1024 - 2 ^ 970 \<longrightarrow>
                       i = min (int (length xs) - 1) (int k))
                \<and> (\<forall>k. slider_value (timeSlider s) = CHR ''-'' # dec k \<longrightarrow> i = 0)
                \<and> (slider_value (timeSlider s) = [] \<longrightarrow> i = 0)
                \<and> (slider_value (timeSlider s) \<noteq> []
                     \<and> \<not> is_space (hd (slider_value (timeSlider s)))
                     \<and> hd (slider_value (timeSlider s)) \<noteq> CHR ''-''
                     \<and> hd (slider_value (timeSlider s)) \<noteq> CHR ''+''
                     \<and> \<not> is_digit (hd (slider_value (timeSlider s))) \<longrightarrow> i = 0)))
         \<and> ((\<forall>x xs. get_opt idx ''times_utc'' \<noteq> Arr (x # xs)) \<longrightarrow>
              requests (snd (refresh en s)) = requests s @ [index_url en (currentDate s) (currentKind s)]
              \<and> gridLayer (snd (refresh en s)) = [])"
proof (intro conjI allI impI)
  fix xs
  assume h: "get_opt idx ''times_utc'' = Arr xs \<and> xs \<noteq> []"
  then have ne: "xs \<noteq> []" and t: "get_opt idx ''times_utc'' = Arr xs" by simp_all
  let ?i = "clampIndex (length xs) (slider_value (timeSlider s))"
  let ?s2 = "(loading en s)\<lparr>times_var := Arr xs\<rparr>"
  from ne have r: "0 \<le> ?i" "?i < int (length xs)"
    using clampIndex_range [of "length xs"] by simp_all
  have rt: "refresh_try en s = showTime en idx xs ?s2"
    using assms t ne by (rule refresh_with_times)
  have sl: "slider_value (timeSlider ?s2) = slider_value (timeSlider s)"
    by (simp add: loading_def)
  have a: "timeSlider (snd (refresh en s)) =
      \<lparr>slider_min = ''0'', slider_max = dec_int (int (length xs) - 1), slider_value = dec_int ?i\<rparr>"
    using assms(1)
    by (simp add: refresh_snd rt showTime_keeps refresh_catch_keeps loading_def
        split: option.splits)
  have b: "requests (snd (refresh en s)) =
       requests s @ index_url en (currentDate s) (currentKind s)
         # (case timeLabelText en (xs ! nat ?i) of
              Inl e \<Rightarrow> []
            | Inr lbl \<Rightarrow> [grid_url en (currentDate s) (currentKind s) (xs ! nat ?i)])"
    using assms(1)
    by (simp add: refresh_snd rt showTime_requests [OF ne] refresh_catch_keeps loading_def
        split: option.splits sum.splits)
  have j: "js_index xs ?i = xs ! nat ?i"
    using r by (simp add: js_index_in)
  have c: "(\<forall>k. slider_value (timeSlider s) = dec k \<and> k < 2 ^ 1024 - 2 ^ 970 \<longrightarrow>
                ?i = min (int (length xs) - 1) (int k))
           \<and> (\<forall>k. slider_value (timeSlider s) = CHR ''-'' # dec k \<longrightarrow> ?i = 0)
           \<and> (slider_value (timeSlider s) = [] \<longrightarrow> ?i = 0)
           \<and> (slider_value (timeSlider s) \<noteq> []
                \<and> \<not> is_space (hd (slider_value (timeSlider s)))
                \<and> hd (slider_value (timeSlider s)) \<noteq> CHR ''-''
                \<and> hd (slider_value (timeSlider s)) \<noteq> CHR ''+''
                \<and> \<not> is_digit (hd (slider_value (timeSlider s))) \<longrightarrow> ?i = 0)"
    using ne
    by (auto simp: clampIndex_dec clampIndex_minus_dec clampIndex_empty clampIndex_no_digit)
  show "let i = ?i; s' = snd (refresh en s)
        in 0 \<le> i \<and> i < int (length xs) \<and> js_index xs i = xs ! nat i
           \<and> timeSlider s' = \<lparr>slider_min = ''0'', slider_max = dec_int (int (length xs) - 1),
                                slider_value = dec_int i\<rparr>
           \<and> requests s' =
               requests s @ index_url en (currentDate s) (currentKind s)
                 # (case timeLabelText en (xs ! nat i) of
                      Inl e \<Rightarrow> []
                    | Inr lbl \<Rightarrow> [grid_url en (currentDate s) (currentKind s) (xs ! nat i)])
           \<and> (\<forall>k. slider_value (timeSlider s) = dec k \<and> k < 2 ^ 1024 - 2 ^ 970 \<longrightarrow>
                  i = min (int (length xs) - 1) (int k))
           \<and> (\<forall>k. slider_value (timeSlider s) = CHR ''-'' # dec k \<longrightarrow> i = 0)
           \<and> (slider_value (timeSlider s) = [] \<longrightarrow> i = 0)
           \<and> (slider_value (timeSlider s) \<noteq> []
                \<and> \<not> is_space (hd (slider_value (timeSlider s)))
                \<and> hd (slider_value (timeSlider s)) \<noteq> CHR ''-''
                \<and> hd (slider_value (timeSlider s)) \<noteq> CHR ''+''
                \<and> \<not> is_digit (hd (slider_value (timeSlider s))) \<longrightarrow> i = 0)"
    unfolding Let_def using r a b c j by blast
next
  assume "\<forall>x xs. get_opt idx ''times_utc'' \<noteq> Arr (x # xs)"
  from refresh_no_times [OF assms this]
  show "requests (snd (refresh en s)) = requests s @ [index_url en (currentDate s) (currentKind s)]"
    by simp
next
  assume "\<forall>x xs. get_opt idx ''times_utc'' \<noteq> Arr (x # xs)"
  from refresh_no_times [OF assms this]
  show "gridLayer (snd (refresh en s)) = []"
    by simp
qed


theorem refresh_time_index_witness:
  "truthy (currentDate ex_state)
   \<and> fetch (ex_env ex_fetch) (index_url (ex_env ex_fetch) (currentDate ex_state) (currentKind ex_state))
       = Response 200 (Inr ex_index)
   \<and> res_ok 200
   \<and> get_opt ex_index ''times_utc'' = Arr [Str ''0000'', Str ''1200'']
   \<and> slider_value (timeSlider ex_state) = dec 7 \<and> (7::nat) < 2 ^ 1024 - 2 ^ 970
   \<and> timeSlider (snd (refresh (ex_env ex_fetch) ex_state))
       = \<lparr>slider_min = ''0'', slider_max = ''1'', slider_value = ''1''\<rparr>
   \<and> requests (snd (refresh (ex_env ex_fetch) ex_state))
       = [''./data/20240101/tec/index.json'', ''./data/20240101/tec/1200.json'']
   \<and> slider_value (timeSlider ex_state0) = dec 0
   \<and> timeSlider (snd (refresh (ex_env ex_fetch) ex_state0))
       = \<lparr>slider_min = ''0'', slider_max = ''1'', slider_value = ''0''\<rparr>
   \<and> requests (snd (refresh (ex_env ex_fetch) ex_state0))
       = [''./data/20240101/tec/index.json'', ''./data/20240101/tec/0000.json'']
   \<and> requests (snd (refresh (ex_env ex_fetch_empty) ex_state)) = [''./data/20240101/tec/index.json'']
   \<and> gridLayer (snd (refresh (ex_env ex_fetch_empty) ex_state)) = []"
proof -
  let ?E = "ex_env ex_fetch"
  let ?xs = "[Str ''0000'', Str ''1200'']"
  have h1: "truthy (currentDate ex_state)" by (simp add: ex_defs)
  have h2: "fetch ?E (index_url ?E (currentDate ex_state) (currentKind ex_state))
       = Response 200 (Inr ex_index)" by (simp add: ex_defs)
  have h3: "res_ok 200" by (simp add: res_ok_def)
  have h4: "get_opt ex_index ''times_utc'' = Arr ?xs \<and> ?xs \<noteq> []"
    by (simp add: ex_defs)
  have d7: "slider_value (timeSlider ex_state) = dec 7" by (simp add: ex_state_def str_eval)
  have l7: "(7::nat) < 2 ^ 1024 - 2 ^ 970" by simp
  note T = refresh_time_index [OF h1 h2 h3, unfolded Let_def]
  let ?i = "clampIndex (length ?xs) (slider_value (timeSlider ex_state))"
  from T h4 d7 l7 have i: "?i = min (int (length ?xs) - 1) (int 7)" by blast
  then have i1: "?i = 1" by simp
  from T h4 have A: "timeSlider (snd (refresh ?E ex_state)) =
      \<lparr>slider_min = ''0'', slider_max = dec_int (int (length ?xs) - 1), slider_value = dec_int ?i\<rparr>"
    by blast
  from T h4 have B: "requests (snd (refresh ?E ex_state)) =
      requests ex_state @ index_url ?E (currentDate ex_state) (currentKind ex_state)
        # (case timeLabelText ?E (?xs ! nat ?i) of
             Inl e \<Rightarrow> []
           | Inr lbl \<Rightarrow> [grid_url ?E (currentDate ex_state) (currentKind ex_state) (?xs ! nat ?i)])"
    by blast
  have a: "timeSlider (snd (refresh ?E ex_state))
       = \<lparr>slider_min = ''0'', slider_max = ''1'', slider_value = ''1''\<rparr>"
    using A unfolding i1 by (simp add: str_eval)
  have b: "requests (snd (refresh ?E ex_state))
       = [''./data/20240101/tec/index.json'', ''./data/20240101/tec/1200.json'']"
    using B unfolding i1 by (simp add: ex_state_def timeLabelText_def grid_url_def index_url_def slice_def)
  have g1: "truthy (currentDate ex_state0)" by (simp add: ex_defs)
  have g2: "fetch ?E (index_url ?E (currentDate ex_state0) (currentKind ex_state0))
       = Response 200 (Inr ex_index)" by (simp add: ex_defs)
  have d0: "slider_value (timeSlider ex_state0) = dec 0" by (simp add: ex_state0_def str_eval)
  have l0: "(0::nat) < 2 ^ 1024 - 2 ^ 970" by simp
  note T0 = refresh_time_index [OF g1 g2 h3, unfolded Let_def]
  let ?j = "clampIndex (length ?xs) (slider_value (timeSlider ex_state0))"
  from T0 h4 d0 l0 have j: "?j = min (int (length ?xs) - 1) (int 0)" by blast
  then have j1: "?j = 0" by simp
  from T0 h4 have A0: "timeSlider (snd (refresh ?E ex_state0)) =
      \<lparr>slider_min = ''0'', slider_max = dec_int (int (length ?xs) - 1), slider_value = dec_int ?j\<rparr>"
    by blast
  from T0 h4 have B0: "requests (snd (refresh ?E ex_state0)) =
      requests ex_state0 @ index_url ?E (currentDate ex_state0) (currentKind ex_state0)
        # (case timeLabelText ?E (?xs ! nat ?j) of
             Inl e \<Rightarrow> []
           | Inr lbl \<Rightarrow> [grid_url ?E (currentDate ex_state0) (currentKind ex_state0) (?xs ! nat ?j)])"
    by blast
  have a0: "timeSlider (snd (refresh ?E ex_state0))
       = \<lparr>slider_min = ''0'', slider_max = ''1'', slider_value = ''0''\<rparr>"
    using A0 unfolding j1 by (simp add: str_eval)
  have b0: "requests (snd (refresh ?E ex_state0))
       = [''./data/20240101/tec/index.json'', ''./data/20240101/tec/0000.json'']"
    using B0 unfolding j1
    by (simp add: ex_state0_def ex_state_def timeLabelText_def grid_url_def index_url_def slice_def)
  have h5: "fetch (ex_env ex_fetch_empty)
       (index_url (ex_env ex_fetch_empty) (currentDate ex_state) (currentKind ex_state))
       = Response 200 (Inr (Obj [(''times_utc'', Arr [])]))" by (simp add: ex_defs)
  have n: "\<forall>x xs. get_opt (Obj [(''times_utc'', Arr [])]) ''times_utc'' \<noteq> Arr (x # xs)" by simp
  from refresh_time_index [OF h1 h5 h3] n
  have "requests (snd (refresh (ex_env ex_fetch_empty) ex_state))
          = requests ex_state @ [index_url (ex_env ex_fetch_empty) (currentDate ex_state) (currentKind ex_state)]
     \<and> gridLayer (snd (refresh (ex_env ex_fetch_empty) ex_state)) = []"
    by blast
  then have c: "requests (snd (refresh (ex_env ex_fetch_empty) ex_state)) = [''./data/20240101/tec/index.json'']
     \<and> gridLayer (snd (refresh (ex_env ex_fetch_empty) ex_state)) = []"
    by (simp add: ex_state_def index_url_def)
  from h1 h2 h3 h4 d7 l7 a b d0 a0 b0 c show ?thesis by blast
qed

lemma noTimes_valid: "\<forall>x xs. t \<noteq> Arr (x # xs) \<Longrightarrow> valid_selection (noTimes (s\<lparr>times_var := t\<rparr>))"
  by (cases t) (auto simp: valid_selection_def noTimes_def setStatus_def neq_Nil_conv)

lemma showTime_valid:
  assumes "xs \<noteq> []" and "times_var s = Arr xs"
  shows "valid_selection (snd (showTime en idx xs s))"
proof -
  let ?i = "clampIndex (length xs) (slider_value (timeSlider s))"
  from assms(1) have r: "0 \<le> ?i" "?i < int (length xs)"
    using clampIndex_range [of "length xs"] by simp_all
  then have "dec_int ?i = dec (nat ?i)" "nat ?i < length xs"
    by (simp_all add: dec_int_def)
  then have "dec_int ?i \<in> set (map (\<lambda>i. dec i) [0..<length xs])"
    by (auto simp: image_iff intro!: bexI [of _ "nat ?i"])
  then show ?thesis
    by (simp add: valid_selection_def showTime_keeps assms(2))
qed

lemma refresh_try_keeps:
  "currentDate (snd (refresh_try en s)) = currentDate s"
  "currentKind (snd (refresh_try en s)) = currentKind s"
  "dateInput (snd (refresh_try en s)) = dateInput s"
  by (auto simp: refresh_try_def Let_def loadLayerIndex_def fetchJson_def setStatus_def
      noTimes_def showTime_keeps
      split: prod.splits sum.splits response.splits js.splits
      dest!: arg_cong [where f = snd])

lemma refresh_try_valid:
  assumes "valid_selection s"
  shows "valid_selection (snd (refresh_try en s))"
proof (cases "fetch_fails en (index_url en (currentDate s) (currentKind s))")
  case True
  from refresh_try_index_fail [OF True] obtain e where "refresh_try en s = (Some e, loading en s)"
    by blast
  then show ?thesis using assms by (simp add: valid_selection_def loading_def split: js.splits)
next
  case False
  then obtain st idx where f: "fetch en (index_url en (currentDate s) (currentKind s)) = Response st (Inr idx)"
    and ok: "res_ok st"
    by (rule fetch_succeeds)
  let ?t = "js_or (get_opt idx ''times_utc'') (Arr [])"
  show ?thesis
  proof (cases "\<exists>x xs. ?t = Arr (x # xs)")
    case True
    then obtain x xs where t: "?t = Arr (x # xs)" by blast
    have "refresh_try en s = showTime en idx (x # xs) ((loading en s)\<lparr>times_var := Arr (x # xs)\<rparr>)"
      unfolding refresh_try_index_ok [OF f ok] by (simp add: t)
    then show ?thesis by (simp add: showTime_valid)
  next
    case False
    then have n: "\<forall>x xs. ?t \<noteq> Arr (x # xs)" by blast
    then have "refresh_try en s = (None, noTimes ((loading en s)\<lparr>times_var := ?t\<rparr>))"
      unfolding refresh_try_index_ok [OF f ok]
      by (cases ?t) (auto simp: neq_Nil_conv)
    then show ?thesis using noTimes_valid [OF n] by simp
  qed
qed

lemma refresh_catch_valid: "valid_selection s \<Longrightarrow> valid_selection (refresh_catch e s)"
  by (simp add: valid_selection_def refresh_catch_keeps split: js.splits)

lemma showTime_grid_fail:
  assumes "xs \<noteq> []"
    and "fetch_fails en (grid_url en (currentDate s) (currentKind s)
           (js_index xs (clampIndex (length xs) (slider_value (timeSlider s)))))"
  shows "\<exists>e. fst (showTime en idx xs s) = Some e"
proof -
  let ?h = "js_index xs (clampIndex (length xs) (slider_value (timeSlider s)))"
  show ?thesis
  proof (cases "timeLabelText en ?h")
    case (Inl e)
    then show ?thesis by (simp add: showTime_def Let_def)
  next
    case (Inr lbl)
    let ?s1 = "s\<lparr>timeSlider :=
                  \<lparr>slider_min = ''0'', slider_max = dec_int (int (length xs) - 1),
                   slider_value = dec_int (clampIndex (length xs) (slider_value (timeSlider s)))\<rparr>,
                 timeLabel := lbl\<rparr>"
    from fetchJson_fails [OF assms(2), of ?s1] obtain e s2 where
      "fetchJson en (grid_url en (currentDate s) (currentKind s) ?h) ?s1 = (Inl e, s2)"
      by blast
    then show ?thesis using Inr by (simp add: showTime_def Let_def loadGrid_def)
  qed
qed

lemma refresh_try_fails:
  assumes "index_fails en s \<or> grid_fails en s"
  shows "\<exists>e. fst (refresh_try en s) = Some e"
  using assms
proof
  assume "index_fails en s"
  then have "fetch_fails en (index_url en (currentDate s) (currentKind s))"
    by (simp add: index_fails_def)
  from refresh_try_index_fail [OF this] show ?thesis by auto
next
  assume g: "grid_fails en s"
  then obtain st idx xs where
    f: "fetch en (index_url en (currentDate s) (currentKind s)) = Response st (Inr idx)"
    and ok: "res_ok st" and t: "get_opt idx ''times_utc'' = Arr xs" and ne: "xs \<noteq> []"
    and gf: "fetch_fails en (grid_url en (currentDate s) (currentKind s)
               (js_index xs (clampIndex (length xs) (slider_value (timeSlider s)))))"
    by (auto simp: grid_fails_def split: response.splits sum.splits js.splits)
  let ?s2 = "(loading en s)\<lparr>times_var := Arr xs\<rparr>"
  have rt: "refresh_try en s = showTime en idx xs ?s2"
    unfolding refresh_try_index_ok [OF f ok] using t ne by (simp add: js_or_def)
  have "fetch_fails en (grid_url en (currentDate ?s2) (currentKind ?s2)
               (js_index xs (clampIndex (length xs) (slider_value (timeSlider ?s2)))))"
    using gf by (simp add: loading_def)
  from showTime_grid_fail [OF ne this] show ?thesis by (simp add: rt)
qed

text \<open>
  C2: when the fetch of the index or of the snapshot fails inside \<open>refresh\<close> (transport
  failure, status that is not a success, body that is not JSON), the \<^verbatim>\<open>try\<close> block
  raises an error \<open>e\<close>, and the run ends without an exception, with the grid cleared, the
  status \<open>Error: \<close> followed by the message of \<open>e\<close>, and the legend showing the
  data-missing text; date and kind are unchanged and a valid selection stays valid.
\<close>

theorem refresh_failure:
  assumes "truthy (currentDate s)" and "index_fails en s \<or> grid_fails en s"
  shows "\<exists>e. fst (refresh_try en s) = Some e
           \<and> fst (refresh en s) = None
           \<and> gridLayer (snd (refresh en s)) = []
           \<and> statusEl (snd (refresh en s)) = ''Error: '' @ message e
           \<and> legendBody (snd (refresh en s)) = LegendText ''Data missing or not generated yet.''
           \<and> currentDate (snd (refresh en s)) = currentDate s
           \<and> currentKind (snd (refresh en s)) = currentKind s
           \<and> (valid_selection s \<longrightarrow> valid_selection (snd (refresh en s)))"
proof -
  from refresh_try_fails [OF assms(2)] obtain e where e: "fst (refresh_try en s) = Some e"
    by blast
  have s': "snd (refresh en s) = refresh_catch e (snd (refresh_try en s))"
    using assms(1) e by (simp add: refresh_snd)
  have "valid_selection s \<longrightarrow> valid_selection (snd (refresh en s))"
    unfolding s' by (simp add: refresh_catch_valid refresh_try_valid)
  then show ?thesis
    using e by (intro exI [of _ e]) (simp add: s' refresh_never_throws refresh_catch_keeps refresh_try_keeps)
qed

theorem refresh_failure_witness:
  "truthy (currentDate ex_state) \<and> index_fails (ex_env ex_fetch_404) ex_state
   \<and> refresh (ex_env ex_fetch_404) ex_state =
       (None, ex_state\<lparr>statusEl := ''Error: HTTP 404 ./data/20240101/tec/index.json'',
                       legendBody := LegendText ''Data missing or not generated yet.'',
                       requests := [''./data/20240101/tec/index.json'']\<rparr>)
   \<and> truthy (currentDate ex_state0) \<and> grid_fails (ex_env ex_fetch) ex_state0
   \<and> gridLayer (snd (refresh (ex_env ex_fetch) ex_state0)) = []
   \<and> statusEl (snd (refresh (ex_env ex_fetch) ex_state0)) = ''Error: HTTP 404 ./data/20240101/tec/0000.json''
   \<and> legendBody (snd (refresh (ex_env ex_fetch) ex_state0)) = LegendText ''Data missing or not generated yet.''
   \<and> valid_selection ex_state0 \<and> valid_selection (snd (refresh (ex_env ex_fetch) ex_state0))"
proof -
  have h1: "truthy (currentDate ex_state)" by (simp add: ex_defs)
  have h2: "index_fails (ex_env ex_fetch_404) ex_state \<or> grid_fails (ex_env ex_fetch_404) ex_state"
    by (simp add: index_fails_def fetch_fails_def ex_defs)
  have e1: "refresh_try (ex_env ex_fetch_404) ex_state =
     (Some (Error ''HTTP 404 ./data/20240101/tec/index.json''),
      ex_state\<lparr>statusEl := ''Loading TEC 20240101...'', requests := [''./data/20240101/tec/index.json'']\<rparr>)"
    by (simp add: run_eval ex_defs str_eval)
  from refresh_failure [OF h1 h2] e1
  have a: "gridLayer (snd (refresh (ex_env ex_fetch_404) ex_state)) = []
     \<and> statusEl (snd (refresh (ex_env ex_fetch_404) ex_state)) = ''Error: HTTP 404 ./data/20240101/tec/index.json''
     \<and> legendBody (snd (refresh (ex_env ex_fetch_404) ex_state)) = LegendText ''Data missing or not generated yet.''"
    by auto
  have a': "refresh (ex_env ex_fetch_404) ex_state =
       (None, ex_state\<lparr>statusEl := ''Error: HTTP 404 ./data/20240101/tec/index.json'',
                       legendBody := LegendText ''Data missing or not generated yet.'',
                       requests := [''./data/20240101/tec/index.json'']\<rparr>)"
    unfolding refresh_def e1 using h1 by (simp add: refresh_catch_def setStatus_def ex_state_def)
  have g1: "truthy (currentDate ex_state0)" by (simp add: ex_defs)
  have c: "clampIndex (Suc (Suc 0)) ''0'' = 0" by (simp add: parse_eval)
  have g2: "grid_fails (ex_env ex_fetch) ex_state0"
    by (simp add: grid_fails_def fetch_fails_def ex_defs c js_index_def str_eval)
  then have g2': "index_fails (ex_env ex_fetch) ex_state0 \<or> grid_fails (ex_env ex_fetch) ex_state0"
    by simp
  have e2: "fst (refresh_try (ex_env ex_fetch) ex_state0) = Some (Error ''HTTP 404 ./data/20240101/tec/0000.json'')"
    by (simp add: run_eval ex_defs str_eval c)
  have v: "valid_selection ex_state0"
    by (simp add: valid_selection_def ex_defs)
  from refresh_failure [OF g1 g2'] e2 v
  have b: "gridLayer (snd (refresh (ex_env ex_fetch) ex_state0)) = []
   \<and> statusEl (snd (refresh (ex_env ex_fetch) ex_state0)) = ''Error: HTTP 404 ./data/20240101/tec/0000.json''
   \<and> legendBody (snd (refresh (ex_env ex_fetch) ex_state0)) = LegendText ''Data missing or not generated yet.''
   \<and> valid_selection (snd (refresh (ex_env ex_fetch) ex_state0))"
    by auto
  show ?thesis using h1 h2 a' g1 g2 b v
    by (simp add: index_fails_def fetch_fails_def ex_defs)
qed

text \<open>
  C4: when the index arrives with an empty list of times, \<open>refresh\<close> ends without an
  error and without requesting a snapshot: the grid is cleared, the time label is the
  placeholder \<open>--:-- UTC\<close>, the slider is reset, and the status says that there are no
  times; nothing else on the page changes.
\<close>

theorem refresh_empty_times:
  assumes "truthy (currentDate s)"
    and "fetch en (index_url en (currentDate s) (currentKind s)) = Response st (Inr idx)"
    and "res_ok st"
    and "get_opt idx ''times_utc'' = Arr []"
  shows "refresh en s =
     (None, s\<lparr>times_var := Arr [],
              timeSlider := \<lparr>slider_min = ''0'', slider_max = ''0'', slider_value = ''0''\<rparr>,
              timeLabel := ''--:-- UTC'',
              statusEl := ''No times in '' @ currentKind s @ ''/index.json (yet)'',
              gridLayer := [],
              requests := requests s @ [index_url en (currentDate s) (currentKind s)]\<rparr>)"
proof -
  have "\<forall>x xs. get_opt idx ''times_utc'' \<noteq> Arr (x # xs)"
    by (simp add: assms(4))
  from refresh_no_times [OF assms(1,2,3) this] show ?thesis
    by (simp add: assms(4) js_or_def)
qed

theorem refresh_empty_times_witness:
  "truthy (currentDate ex_state)
   \<and> fetch (ex_env ex_fetch_empty)
        (index_url (ex_env ex_fetch_empty) (currentDate ex_state) (currentKind ex_state))
       = Response 200 (Inr (Obj [(''times_utc'', Arr [])]))
   \<and> res_ok 200
   \<and> get_opt (Obj [(''times_utc'', Arr [])]) ''times_utc'' = Arr []
   \<and> refresh (ex_env ex_fetch_empty) ex_state =
        (None, ex_state\<lparr>timeSlider := \<lparr>slider_min = ''0'', slider_max = ''0'', slider_value = ''0''\<rparr>,
                        timeLabel := ''--:-- UTC'',
                        statusEl := ''No times in tec/index.json (yet)'',
                        requests := [''./data/20240101/tec/index.json'']\<rparr>)"
proof -
  have h1: "truthy (currentDate ex_state)" by (simp add: ex_defs)
  have h2: "fetch (ex_env ex_fetch_empty)
        (index_url (ex_env ex_fetch_empty) (currentDate ex_state) (currentKind ex_state))
       = Response 200 (Inr (Obj [(''times_utc'', Arr [])]))" by (simp add: ex_defs)
  have h3: "res_ok 200" by (simp add: res_ok_def)
  have h4: "get_opt (Obj [(''times_utc'', Arr [])]) ''times_utc'' = Arr []" by simp
  from refresh_empty_times [OF h1 h2 h3 h4] h1 h2 h3 h4 show ?thesis
    by (simp add: ex_state_def index_url_def)
qed

lemma loadLayerIndex_fails_iff:
  "isl (fst (loadLayerIndex en ymd kind s)) = fetch_fails en (index_url en ymd kind)"
  by (simp add: loadLayerIndex_def fetchJson_fails_iff)

lemma showTime_status:
  assumes "fst (showTime en idx xs s) = None"
  shows "statusEl (snd (showTime en idx xs s)) =
           ''OK (updated: '' @ toString en (js_or (get_opt idx ''updated_utc'') (Str ''unknown'')) @ '')''"
  using assms
  by (auto simp: showTime_def Let_def setStatus_def split: sum.splits prod.splits option.splits)

lemma coalesce_field: "js_coalesce v d = field_or v d"
  by (cases v) (simp_all add: js_coalesce_def field_or_def)

lemma drawGrid_unfold:
  "drawGrid en grid idx s =
     (case legendHtml en (s\<lparr>gridLayer := []\<rparr>) (index_vmin idx) (index_vmax idx) (index_unit idx) of
        Inl e \<Rightarrow> (Some e, s\<lparr>gridLayer := []\<rparr>)
      | Inr h \<Rightarrow>
          (case iterate (js_or (get_opt grid ''cells'') (Arr [])) of
             Inl e \<Rightarrow> (Some e, s\<lparr>gridLayer := [], legendBody := h\<rparr>)
           | Inr cs \<Rightarrow>
               drawCells en (index_dlat idx) (index_dlon idx) (index_vmin idx) (index_vmax idx)
                 (index_unit idx) cs (s\<lparr>gridLayer := [], legendBody := h\<rparr>)))"
  by (simp add: drawGrid_def Let_def coalesce_field index_dlat_def index_dlon_def index_vmin_def
      index_vmax_def index_unit_def split: sum.splits)

lemma cellRect_drawn:
  "\<not> nullish c \<Longrightarrow>
   cellRect en (index_dlat idx) (index_dlon idx) (index_vmin idx) (index_vmax idx) (index_unit idx) c
     = Inr (drawn_rect en idx c)"
  by (simp add: cellRect_def get_prop_def drawn_rect_def Let_def)

lemma cellRect_nullish:
  "nullish c \<Longrightarrow> isl (cellRect en a b lo hi u c)"
  by (simp add: cellRect_def get_prop_def)

lemma drawCells_all:
  "\<forall>c\<in>set cs. \<not> nullish c \<Longrightarrow>
   drawCells en (index_dlat idx) (index_dlon idx) (index_vmin idx) (index_vmax idx) (index_unit idx) cs s
     = (None, s\<lparr>gridLayer := gridLayer s @ map (drawn_rect en idx) cs\<rparr>)"
proof (induction cs arbitrary: s)
  case Nil
  then show ?case by simp
next
  case (Cons c cs)
  then have c: "\<not> nullish c" and rest: "\<forall>c\<in>set cs. \<not> nullish c" by simp_all
  show ?case
    by (simp add: cellRect_drawn [OF c] Cons.IH [OF rest])
qed

lemma drawCells_success:
  "drawCells en a b lo hi u cs s = (None, s') \<Longrightarrow> \<forall>c\<in>set cs. \<not> nullish c"
proof (induction cs arbitrary: s)
  case Nil
  then show ?case by simp
next
  case (Cons c cs)
  show ?case
  proof (cases "cellRect en a b lo hi u c")
    case (Inl e)
    with Cons.prems show ?thesis by simp
  next
    case (Inr rc)
    then have "\<not> nullish c" using cellRect_nullish [of c en a b lo hi u] by auto
    moreover from Inr Cons.prems
    have "drawCells en a b lo hi u cs (s\<lparr>gridLayer := gridLayer s @ [rc]\<rparr>) = (None, s')" by simp
    then have "\<forall>c\<in>set cs. \<not> nullish c" by (rule Cons.IH)
    ultimately show ?thesis by simp
  qed
qed

lemma legendHtml_drawn:
  assumes "folderToISODate en (currentDate s) = Inr d"
    and "is_num (index_vmin idx)" and "is_num (index_vmax idx)"
  shows "legendHtml en s (index_vmin idx) (index_vmax idx) (index_unit idx) = Inr (drawn_legend en idx s d)"
proof -
  from assms(2) obtain lo where lo: "index_vmin idx = Num lo" by (cases "index_vmin idx") simp_all
  from assms(3) obtain hi where hi: "index_vmax idx = Num hi" by (cases "index_vmax idx") simp_all
  show ?thesis
    by (simp add: legendHtml_def assms(1) lo hi toFixed_def drawn_legend_def)
qed

lemma legendHtml_cleared:
  "legendHtml en (s\<lparr>gridLayer := g\<rparr>) lo hi u =
     (case legendHtml en s lo hi u of Inl e \<Rightarrow> Inl e | Inr h \<Rightarrow> Inr h)"
  by (simp add: legendHtml_def split: sum.splits)

lemma drawGrid_outcome:
  assumes "get_opt grid ''cells'' = Arr cs" and "\<forall>c\<in>set cs. \<not> nullish c"
    and "folderToISODate en (currentDate s) = Inr d"
    and "is_num (index_vmin idx)" and "is_num (index_vmax idx)"
  shows "drawGrid en grid idx s =
           (None, s\<lparr>gridLayer := map (drawn_rect en idx) cs, legendBody := drawn_legend en idx s d\<rparr>)"
proof -
  have l: "legendHtml en (s\<lparr>gridLayer := []\<rparr>) (index_vmin idx) (index_vmax idx) (index_unit idx)
             = Inr (drawn_legend en idx s d)"
    using legendHtml_drawn [of en "s\<lparr>gridLayer := []\<rparr>" d idx] assms(3,4,5)
    by (simp add: drawn_legend_def)
  have i: "iterate (js_or (get_opt grid ''cells'') (Arr [])) = Inr cs"
    by (simp add: assms(1) js_or_def iterate_def)
  show ?thesis
    by (simp add: drawGrid_unfold l i drawCells_all [OF assms(2)])
qed

lemma drawGrid_success:
  assumes "get_opt grid ''cells'' = Arr cs" and "fst (drawGrid en grid idx s) = None"
  shows "gridLayer (snd (drawGrid en grid idx s)) = map (drawn_rect en idx) cs"
proof -
  have i: "iterate (js_or (get_opt grid ''cells'') (Arr [])) = Inr cs"
    by (simp add: assms(1) js_or_def iterate_def)
  from assms(2) obtain h where
    h: "legendHtml en (s\<lparr>gridLayer := []\<rparr>) (index_vmin idx) (index_vmax idx) (index_unit idx) = Inr h"
    by (cases "legendHtml en (s\<lparr>gridLayer := []\<rparr>) (index_vmin idx) (index_vmax idx) (index_unit idx)")
       (simp_all add: drawGrid_unfold)
  let ?s2 = "s\<lparr>gridLayer := [], legendBody := h\<rparr>"
  have d: "drawGrid en grid idx s =
      drawCells en (index_dlat idx) (index_dlon idx) (index_vmin idx) (index_vmax idx) (index_unit idx)
        cs ?s2"
    by (simp add: drawGrid_unfold h i)
  obtain s' where s': "drawGrid en grid idx s = (None, s')"
    using assms(2) by (cases "drawGrid en grid idx s") simp
  from s' d have "\<forall>c\<in>set cs. \<not> nullish c" using drawCells_success by metis
  from drawCells_all [OF this, of en idx ?s2] show ?thesis
    by (simp add: d)
qed

lemma drawGrid_no_cells:
  assumes "\<not> truthy (get_opt grid ''cells'')"
  shows "gridLayer (snd (drawGrid en grid idx s)) = []"
    and "folderToISODate en (currentDate s) = Inr d \<Longrightarrow> is_num (index_vmin idx) \<Longrightarrow>
         is_num (index_vmax idx) \<Longrightarrow>
           drawGrid en grid idx s = (None, s\<lparr>gridLayer := [], legendBody := drawn_legend en idx s d\<rparr>)"
proof -
  have i: "iterate (js_or (get_opt grid ''cells'') (Arr [])) = Inr []"
    using assms by (simp add: js_or_def iterate_def)
  show "gridLayer (snd (drawGrid en grid idx s)) = []"
    by (simp add: drawGrid_unfold i split: sum.splits)
  assume a: "folderToISODate en (currentDate s) = Inr d" "is_num (index_vmin idx)"
    "is_num (index_vmax idx)"
  have l: "legendHtml en (s\<lparr>gridLayer := []\<rparr>) (index_vmin idx) (index_vmax idx) (index_unit idx)
             = Inr (drawn_legend en idx s d)"
    using legendHtml_drawn [of en "s\<lparr>gridLayer := []\<rparr>" d idx] a
    by (simp add: drawn_legend_def)
  show "drawGrid en grid idx s = (None, s\<lparr>gridLayer := [], legendBody := drawn_legend en idx s d\<rparr>)"
    by (simp add: drawGrid_unfold i l)
qed

lemma showTime_grid:
  assumes "xs \<noteq> []"
    and "fetch en (grid_url en (currentDate s) (currentKind s)
           (xs ! nat (clampIndex (length xs) (slider_value (timeSlider s))))) = Response st (Inr grid)"
    and "res_ok st"
    and "get_opt grid ''cells'' = Arr cs"
    and "fst (showTime en idx xs s) = None"
  shows "gridLayer (snd (showTime en idx xs s)) = map (drawn_rect en idx) cs"
proof -
  let ?i = "clampIndex (length xs) (slider_value (timeSlider s))"
  from assms(1) have r: "0 \<le> ?i" "?i < int (length xs)"
    using clampIndex_range [of "length xs"] by simp_all
  have j: "js_index xs ?i = xs ! nat ?i" using r by (simp add: js_index_in)
  let ?s1 = "s\<lparr>timeSlider := \<lparr>slider_min = ''0'', slider_max = dec_int (int (length xs) - 1),
                   slider_value = dec_int ?i\<rparr>\<rparr>"
  from assms(5) obtain lbl where lbl: "timeLabelText en (xs ! nat ?i) = Inr lbl"
    by (cases "timeLabelText en (xs ! nat ?i)") (simp_all add: showTime_def Let_def j)
  let ?s2 = "?s1\<lparr>timeLabel := lbl\<rparr>"
  let ?u = "grid_url en (currentDate s) (currentKind s) (xs ! nat ?i)"
  have lg: "loadGrid en (currentDate ?s1) (currentKind ?s1) (xs ! nat ?i) ?s2
             = (Inr grid, ?s2\<lparr>requests := requests ?s2 @ [?u]\<rparr>)"
    using fetchJson_ok [OF assms(2,3), of ?s2] by (simp add: loadGrid_def)
  let ?s3 = "?s2\<lparr>requests := requests ?s2 @ [?u]\<rparr>"
  have st: "showTime en idx xs s =
      (case drawGrid en grid idx ?s3 of
         (Some e, s4) \<Rightarrow> (Some e, s4)
       | (None, s4) \<Rightarrow>
           (None, setStatus (''OK (updated: ''
                   @ toString en (js_or (get_opt idx ''updated_utc'') (Str ''unknown'')) @ '')'') s4))"
    using lg by (simp add: showTime_def Let_def j lbl)
  from assms(5) have ok: "fst (drawGrid en grid idx ?s3) = None"
    unfolding st by (cases "drawGrid en grid idx ?s3") (auto split: option.splits)
  from drawGrid_success [OF assms(4) ok] show ?thesis
    unfolding st using ok
    by (cases "drawGrid en grid idx ?s3") (auto simp: setStatus_def split: option.splits)
qed

lemma refresh_grid:
  assumes "truthy (currentDate s)"
    and "fetch en (index_url en (currentDate s) (currentKind s)) = Response st (Inr idx)"
    and "res_ok st"
    and "get_opt idx ''times_utc'' = Arr xs" and "xs \<noteq> []"
    and "fetch en (grid_url en (currentDate s) (currentKind s)
           (xs ! nat (clampIndex (length xs) (slider_value (timeSlider s))))) = Response st2 (Inr grid)"
    and "res_ok st2"
    and "get_opt grid ''cells'' = Arr cs"
    and "fst (refresh_try en s) = None"
  shows "gridLayer (snd (refresh en s)) = map (drawn_rect en idx) cs"
proof -
  let ?s2 = "(loading en s)\<lparr>times_var := Arr xs\<rparr>"
  have rt: "refresh_try en s = showTime en idx xs ?s2"
    using assms(1-5) by (rule refresh_with_times)
  have g: "fetch en (grid_url en (currentDate ?s2) (currentKind ?s2)
           (xs ! nat (clampIndex (length xs) (slider_value (timeSlider ?s2))))) = Response st2 (Inr grid)"
    using assms(6) by (simp add: loading_def)
  have ok: "fst (showTime en idx xs ?s2) = None"
    using assms(9) by (simp add: rt)
  have "gridLayer (snd (showTime en idx xs ?s2)) = map (drawn_rect en idx) cs"
    using assms(5) g assms(7,8) ok by (rule showTime_grid)
  then show ?thesis
    using assms(1,9) by (simp add: refresh_snd rt)
qed

lemma index_defaults:
  "nullish (get_opt (get_opt idx ''cell'') ''dlat'') \<Longrightarrow> index_dlat idx = Num (Fin 2)"
  "nullish (get_opt (get_opt idx ''cell'') ''dlon'') \<Longrightarrow> index_dlon idx = Num (Fin 2)"
  "nullish (get_opt (get_opt idx ''range'') ''vmin'') \<Longrightarrow> index_vmin idx = Num (Fin 0)"
  "nullish (get_opt (get_opt idx ''range'') ''vmax'') \<Longrightarrow> index_vmax idx = Num (Fin 1)"
  "nullish (get_opt idx ''unit'') \<Longrightarrow> index_unit idx = Str []"
  by (auto simp: index_defs elim: nullish.elims split: js.splits)

text \<open>
  C3, as stated: \<open>loadLayerIndex\<close> fails when the JSON is there but the times are missing.
  It does not: for an index that has only a unit, the value is returned as it is, and
  \<open>refresh\<close> shows the state without times instead of an error.
\<close>

theorem loadLayerIndex_missing_times:
  "fetch (ex_env ex_fetch_bare) (index_url (ex_env ex_fetch_bare) (Str ''20240101'') ''tec'')
     = Response 200 (Inr (Obj [(''unit'', Str ''TECU'')]))
   \<and> get_opt (Obj [(''unit'', Str ''TECU'')]) ''times_utc'' = Undefined
   \<and> loadLayerIndex (ex_env ex_fetch_bare) (Str ''20240101'') ''tec'' ex_state
     = (Inr (Obj [(''unit'', Str ''TECU'')]), ex_state\<lparr>requests := [''./data/20240101/tec/index.json'']\<rparr>)
   \<and> \<not> isl (fst (loadLayerIndex (ex_env ex_fetch_bare) (Str ''20240101'') ''tec'' ex_state))
   \<and> refresh (ex_env ex_fetch_bare) ex_state
     = (None, ex_state\<lparr>timeSlider := \<lparr>slider_min = ''0'', slider_max = ''0'', slider_value = ''0''\<rparr>,
                       timeLabel := ''--:-- UTC'',
                       statusEl := ''No times in tec/index.json (yet)'',
                       requests := [''./data/20240101/tec/index.json'']\<rparr>)"
  by (simp add: refresh_def run_eval ex_defs str_eval)

text \<open>
  C3, amended: \<open>loadLayerIndex\<close> fails exactly when the fetch fails (transport failure,
  status that is not a success, body that is not JSON) and otherwise returns the parsed
  value unchanged, whatever its structure. A times field that is missing or not a list
  is no error: \<open>refresh\<close> shows the state without times. The optional fields are given
  their defaults where they are used, each on its own: an \<open>updated_utc\<close> that is missing
  or empty is shown as \<open>unknown\<close> in the status, and the grid is drawn with the cell
  size, the range and the unit of the index where it has them and with 2 by 2 degrees,
  0 to 1 and the empty unit where it does not.
\<close>

theorem index_not_validated:
  "(isl (fst (loadLayerIndex en ymd kind s)) \<longleftrightarrow> fetch_fails en (index_url en ymd kind))
   \<and> (\<forall>st j. fetch en (index_url en ymd kind) = Response st (Inr j) \<and> res_ok st \<longrightarrow>
         loadLayerIndex en ymd kind s = (Inr j, s\<lparr>requests := requests s @ [index_url en ymd kind]\<rparr>))
   \<and> (\<forall>st idx. truthy (currentDate s)
         \<and> fetch en (index_url en (currentDate s) (currentKind s)) = Response st (Inr idx)
         \<and> res_ok st \<longrightarrow>
         ((\<forall>xs. get_opt idx ''times_utc'' \<noteq> Arr xs) \<longrightarrow>
            fst (refresh_try en s) = None
            \<and> statusEl (snd (refresh en s)) = ''No times in '' @ currentKind s @ ''/index.json (yet)''
            \<and> gridLayer (snd (refresh en s)) = [])
         \<and> (\<forall>xs. get_opt idx ''times_utc'' = Arr xs \<and> xs \<noteq> [] \<and> fst (refresh_try en s) = None \<longrightarrow>
               statusEl (snd (refresh en s)) =
                 ''OK (updated: ''
                 @ (if truthy (get_opt idx ''updated_utc'') then toString en (get_opt idx ''updated_utc'')
                    else ''unknown'')
                 @ '')''))
   \<and> (\<forall>grid idx cs d. get_opt grid ''cells'' = Arr cs \<and> (\<forall>c\<in>set cs. \<not> nullish c)
         \<and> folderToISODate en (currentDate s) = Inr d
         \<and> is_num (index_vmin idx) \<and> is_num (index_vmax idx) \<longrightarrow>
         drawGrid en grid idx s =
           (None, s\<lparr>gridLayer := map (drawn_rect en idx) cs, legendBody := drawn_legend en idx s d\<rparr>))
   \<and> (\<forall>idx. (nullish (get_opt (get_opt idx ''cell'') ''dlat'') \<longrightarrow> index_dlat idx = Num (Fin 2))
         \<and> (nullish (get_opt (get_opt idx ''cell'') ''dlon'') \<longrightarrow> index_dlon idx = Num (Fin 2))
         \<and> (nullish (get_opt (get_opt idx ''range'') ''vmin'') \<longrightarrow> index_vmin idx = Num (Fin 0))
         \<and> (nullish (get_opt (get_opt idx ''range'') ''vmax'') \<longrightarrow> index_vmax idx = Num (Fin 1))
         \<and> (nullish (get_opt idx ''unit'') \<longrightarrow> index_unit idx = Str []))"
proof (intro conjI allI impI)
  show "isl (fst (loadLayerIndex en ymd kind s)) \<longleftrightarrow> fetch_fails en (index_url en ymd kind)"
    by (rule loadLayerIndex_fails_iff)
next
  fix st j
  assume "fetch en (index_url en ymd kind) = Response st (Inr j) \<and> res_ok st"
  then show "loadLayerIndex en ymd kind s = (Inr j, s\<lparr>requests := requests s @ [index_url en ymd kind]\<rparr>)"
    by (simp add: loadLayerIndex_def fetchJson_ok)
next
  fix st idx
  assume a: "truthy (currentDate s)
         \<and> fetch en (index_url en (currentDate s) (currentKind s)) = Response st (Inr idx)
         \<and> res_ok st"
    and n: "\<forall>xs. get_opt idx ''times_utc'' \<noteq> Arr xs"
  let ?t = "js_or (get_opt idx ''times_utc'') (Arr [])"
  from n have n': "\<forall>x xs. get_opt idx ''times_utc'' \<noteq> Arr (x # xs)" by simp
  from n have "?t = Arr [] \<or> (\<forall>xs. ?t \<noteq> Arr xs)" by (simp add: js_or_def)
  then have "refresh_try en s = (None, noTimes ((loading en s)\<lparr>times_var := ?t\<rparr>))"
    using a by (cases ?t) (auto simp: refresh_try_index_ok)
  then show "fst (refresh_try en s) = None" by simp
  from a have a1: "truthy (currentDate s)"
    and a2: "fetch en (index_url en (currentDate s) (currentKind s)) = Response st (Inr idx)"
    and a3: "res_ok st" by simp_all
  have r: "refresh en s =
     (None, s\<lparr>times_var := js_or (get_opt idx ''times_utc'') (Arr []),
              timeSlider := \<lparr>slider_min = ''0'', slider_max = ''0'', slider_value = ''0''\<rparr>,
              timeLabel := ''--:-- UTC'',
              statusEl := ''No times in '' @ currentKind s @ ''/index.json (yet)'',
              gridLayer := [],
              requests := requests s @ [index_url en (currentDate s) (currentKind s)]\<rparr>)"
    using a1 a2 a3 n' by (rule refresh_no_times)
  show "statusEl (snd (refresh en s)) = ''No times in '' @ currentKind s @ ''/index.json (yet)''"
    by (simp add: r)
  show "gridLayer (snd (refresh en s)) = []"
    by (simp add: r)
next
  fix st idx xs
  assume a: "truthy (currentDate s)
         \<and> fetch en (index_url en (currentDate s) (currentKind s)) = Response st (Inr idx)
         \<and> res_ok st"
    and b: "get_opt idx ''times_utc'' = Arr xs \<and> xs \<noteq> [] \<and> fst (refresh_try en s) = None"
  from a have a1: "truthy (currentDate s)"
    and a2: "fetch en (index_url en (currentDate s) (currentKind s)) = Response st (Inr idx)"
    and a3: "res_ok st" by simp_all
  from b have b1: "get_opt idx ''times_utc'' = Arr xs" and b2: "xs \<noteq> []" by simp_all
  have rt: "refresh_try en s = showTime en idx xs ((loading en s)\<lparr>times_var := Arr xs\<rparr>)"
    using a1 a2 a3 b1 b2 by (rule refresh_with_times)
  with b have ok: "fst (showTime en idx xs ((loading en s)\<lparr>times_var := Arr xs\<rparr>)) = None"
    by simp
  from a b have "snd (refresh en s) = snd (refresh_try en s)"
    by (simp add: refresh_snd)
  then show "statusEl (snd (refresh en s)) =
                 ''OK (updated: ''
                 @ (if truthy (get_opt idx ''updated_utc'') then toString en (get_opt idx ''updated_utc'')
                    else ''unknown'')
                 @ '')''"
    using showTime_status [OF ok] by (simp add: rt js_or_def)
next
  fix grid idx cs d
  assume "get_opt grid ''cells'' = Arr cs \<and> (\<forall>c\<in>set cs. \<not> nullish c)
         \<and> folderToISODate en (currentDate s) = Inr d
         \<and> is_num (index_vmin idx) \<and> is_num (index_vmax idx)"
  then show "drawGrid en grid idx s =
           (None, s\<lparr>gridLayer := map (drawn_rect en idx) cs, legendBody := drawn_legend en idx s d\<rparr>)"
    by (intro drawGrid_outcome) simp_all
qed (simp_all add: index_defaults)

theorem index_not_validated_witness:
  "fetch (ex_env ex_fetch_bare) (index_url (ex_env ex_fetch_bare) (Str ''20240101'') ''tec'')
     = Response 200 (Inr (Obj [(''unit'', Str ''TECU'')]))
   \<and> res_ok 200 \<and> \<not> fetch_fails (ex_env ex_fetch_bare) ''./data/20240101/tec/index.json''
   \<and> loadLayerIndex (ex_env ex_fetch_bare) (Str ''20240101'') ''tec'' ex_state
     = (Inr (Obj [(''unit'', Str ''TECU'')]), ex_state\<lparr>requests := [''./data/20240101/tec/index.json'']\<rparr>)
   \<and> statusEl (snd (refresh (ex_env ex_fetch_bare) ex_state)) = ''No times in tec/index.json (yet)''
   \<and> gridLayer (snd (refresh (ex_env ex_fetch_bare) ex_state)) = []
   \<and> fst (refresh_try (ex_env ex_fetch) ex_state) = None
   \<and> statusEl (snd (refresh (ex_env ex_fetch) ex_state)) = ''OK (updated: unknown)''
   \<and> get_opt ex_grid2 ''cells'' = Arr ex_cells2 \<and> list_all (\<lambda>c. \<not> nullish c) ex_cells2
   \<and> folderToISODate (ex_env ex_fetch) (currentDate ex_state) = Inr ''2024-01-01''
   \<and> is_num (index_vmin ex_index_dlat) \<and> is_num (index_vmax ex_index_dlat)
   \<and> nullish (get_opt (get_opt ex_index_dlat ''cell'') ''dlon'')
   \<and> index_dlon ex_index_dlat = Num (Fin 2)
   \<and> drawGrid (ex_env ex_fetch) ex_grid2 ex_index_dlat ex_state
       = (None, ex_state\<lparr>gridLayer :=
                  [\<lparr>corner1 = (Num (Fin 0), Num (Fin 0)), corner2 = (Num (Fin 1), Num (Fin 2)),
                    fillColor = Rgba (Fin 255) (Fin 0) (Fin 0) (Fin (55 / 100)), tooltip = ''5.00 ''\<rparr>,
                   \<lparr>corner1 = (Num (Fin 2), Num (Fin 4)), corner2 = (Num (Fin 3), Num (Fin 6)),
                    fillColor = Rgba (Fin 255) (Fin 0) (Fin 0) (Fin (55 / 100)), tooltip = ''10.00 ''\<rparr>],
                legendBody := LegendHtml ''TEC'' ''2024-01-01'' [] ''0.00'' ''1.00'' []\<rparr>)"
proof -
  let ?B = "ex_env ex_fetch_bare" and ?E = "ex_env ex_fetch"
  note t1 = index_not_validated [of ?B "Str ''20240101''" "''tec''" ex_state]
  note t2 = index_not_validated [of ?E "Str ''20240101''" "''tec''" ex_state]
  have h1: "truthy (currentDate ex_state)" by (simp add: ex_defs)
  have h2: "fetch ?B (index_url ?B (Str ''20240101'') ''tec'')
     = Response 200 (Inr (Obj [(''unit'', Str ''TECU'')]))" by (simp add: ex_defs)
  have h2': "fetch ?B (index_url ?B (currentDate ex_state) (currentKind ex_state))
     = Response 200 (Inr (Obj [(''unit'', Str ''TECU'')]))" by (simp add: ex_defs)
  have h3: "res_ok 200" by (simp add: res_ok_def)
  have h4: "\<forall>xs. get_opt (Obj [(''unit'', Str ''TECU'')]) ''times_utc'' \<noteq> Arr xs" by simp
  have nf: "\<not> fetch_fails ?B ''./data/20240101/tec/index.json''"
    by (simp add: fetch_fails_def ex_defs)
  have g1: "fetch ?E (index_url ?E (currentDate ex_state) (currentKind ex_state))
       = Response 200 (Inr ex_index)" by (simp add: ex_defs)
  have g2: "get_opt ex_index ''times_utc'' = Arr [Str ''0000'', Str ''1200'']"
      "[Str ''0000'', Str ''1200''] \<noteq> []" "\<not> truthy (get_opt ex_index ''updated_utc'')"
    by (simp_all add: ex_defs)
  have c: "clampIndex (Suc (Suc 0)) ''7'' = 1" by (simp add: parse_eval)
  have g3: "fst (refresh_try ?E ex_state) = None"
    by (simp add: run_eval draw_eval ex_defs str_eval c)
  from t1 h2 h3 have "loadLayerIndex ?B (Str ''20240101'') ''tec'' ex_state
     = (Inr (Obj [(''unit'', Str ''TECU'')]),
        ex_state\<lparr>requests := requests ex_state @ [index_url ?B (Str ''20240101'') ''tec'']\<rparr>)"
    by blast
  then have a: "loadLayerIndex ?B (Str ''20240101'') ''tec'' ex_state
     = (Inr (Obj [(''unit'', Str ''TECU'')]), ex_state\<lparr>requests := [''./data/20240101/tec/index.json'']\<rparr>)"
    by (simp add: index_url_def ex_state_def)
  from t1 h1 h2' h3 h4 have "statusEl (snd (refresh ?B ex_state)) = ''No times in '' @ currentKind ex_state @ ''/index.json (yet)''
   \<and> gridLayer (snd (refresh ?B ex_state)) = []"
    by blast
  then have b: "statusEl (snd (refresh ?B ex_state)) = ''No times in tec/index.json (yet)''
   \<and> gridLayer (snd (refresh ?B ex_state)) = []"
    by (simp add: ex_state_def)
  from t2 h1 g1 h3 g2(1,2) g3 have "statusEl (snd (refresh ?E ex_state)) =
       ''OK (updated: ''
       @ (if truthy (get_opt ex_index ''updated_utc'') then toString ?E (get_opt ex_index ''updated_utc'')
          else ''unknown'')
       @ '')''"
    by blast
  then have e: "statusEl (snd (refresh ?E ex_state)) = ''OK (updated: unknown)''"
    using g2(3) by simp
  have k1: "get_opt ex_grid2 ''cells'' = Arr ex_cells2" by (simp add: ex_defs ex_cells2_def)
  have k2: "\<forall>c\<in>set ex_cells2. \<not> nullish c" by (simp add: ex_cells2_def)
  have k3: "folderToISODate ?E (currentDate ex_state) = Inr ''2024-01-01''"
    by (simp add: ex_state_def folderToISODate_def folderToISODate_str_def slice_def)
  have k4: "is_num (index_vmin ex_index_dlat)" "is_num (index_vmax ex_index_dlat)"
    by (simp_all add: index_defs2)
  have k5: "nullish (get_opt (get_opt ex_index_dlat ''cell'') ''dlon'')"
    by (simp add: ex_index_dlat_def)
  from t2 k5 have k6: "index_dlon ex_index_dlat = Num (Fin 2)" by blast
  from t2 k1 k2 k3 k4 have "drawGrid ?E ex_grid2 ex_index_dlat ex_state =
      (None, ex_state\<lparr>gridLayer := map (drawn_rect ?E ex_index_dlat) ex_cells2,
                      legendBody := drawn_legend ?E ex_index_dlat ex_state ''2024-01-01''\<rparr>)"
    by blast
  then have f: "drawGrid ?E ex_grid2 ex_index_dlat ex_state
       = (None, ex_state\<lparr>gridLayer :=
                  [\<lparr>corner1 = (Num (Fin 0), Num (Fin 0)), corner2 = (Num (Fin 1), Num (Fin 2)),
                    fillColor = Rgba (Fin 255) (Fin 0) (Fin 0) (Fin (55 / 100)), tooltip = ''5.00 ''\<rparr>,
                   \<lparr>corner1 = (Num (Fin 2), Num (Fin 4)), corner2 = (Num (Fin 3), Num (Fin 6)),
                    fillColor = Rgba (Fin 255) (Fin 0) (Fin 0) (Fin (55 / 100)), tooltip = ''10.00 ''\<rparr>],
                legendBody := LegendHtml ''TEC'' ''2024-01-01'' [] ''0.00'' ''1.00'' []\<rparr>)"
    by (simp add: ex_cells2_def index_defs2 draw_eval str_eval ex_state_def)
  have k2': "list_all (\<lambda>c. \<not> nullish c) ex_cells2" by (simp add: ex_cells2_def)
  from h2 h3 nf a b g3 e k1 k2' k3 k4 k5 k6 f show ?thesis by blast
qed

section \<open>Properties of the grid drawing\<close>

text \<open>
  C10: \<open>drawGrid\<close> clears the layer first, so its outcome does not depend on what was
  drawn before. When it returns without an error for a snapshot whose cells are the
  list \<open>cs\<close>, the layer holds exactly the rectangles of \<open>cs\<close>, one for each cell and in
  their order; it does return without an error when no cell is \<^verbatim>\<open>null\<close>, the date can be
  written and the ends of the range are numbers. A snapshot without cells leaves the
  layer empty and raises nothing under the same conditions on date and range. After a
  run of \<open>refresh\<close> that ends without an error, the layer holds exactly the rectangles of
  the cells of the snapshot that was fetched.
\<close>

theorem drawGrid_replaces:
  "drawGrid en grid idx (s\<lparr>gridLayer := old\<rparr>) = drawGrid en grid idx s
   \<and> (\<forall>cs. get_opt grid ''cells'' = Arr cs \<and> fst (drawGrid en grid idx s) = None \<longrightarrow>
         gridLayer (snd (drawGrid en grid idx s)) = map (drawn_rect en idx) cs)
   \<and> (\<forall>cs d. get_opt grid ''cells'' = Arr cs \<and> (\<forall>c\<in>set cs. \<not> nullish c)
         \<and> folderToISODate en (currentDate s) = Inr d
         \<and> is_num (index_vmin idx) \<and> is_num (index_vmax idx) \<longrightarrow>
         drawGrid en grid idx s =
           (None, s\<lparr>gridLayer := map (drawn_rect en idx) cs, legendBody := drawn_legend en idx s d\<rparr>))
   \<and> (\<not> truthy (get_opt grid ''cells'') \<longrightarrow>
        gridLayer (snd (drawGrid en grid idx s)) = []
        \<and> (\<forall>d. folderToISODate en (currentDate s) = Inr d
              \<and> is_num (index_vmin idx) \<and> is_num (index_vmax idx) \<longrightarrow>
              drawGrid en grid idx s =
                (None, s\<lparr>gridLayer := [], legendBody := drawn_legend en idx s d\<rparr>)))
   \<and> (\<forall>st ix xs st2 g cs. truthy (currentDate s)
         \<and> fetch en (index_url en (currentDate s) (currentKind s)) = Response st (Inr ix)
         \<and> res_ok st \<and> get_opt ix ''times_utc'' = Arr xs \<and> xs \<noteq> []
         \<and> fetch en (grid_url en (currentDate s) (currentKind s)
               (xs ! nat (clampIndex (length xs) (slider_value (timeSlider s)))))
             = Response st2 (Inr g)
         \<and> res_ok st2 \<and> get_opt g ''cells'' = Arr cs \<and> fst (refresh_try en s) = None \<longrightarrow>
         gridLayer (snd (refresh en s)) = map (drawn_rect en ix) cs)"
proof (intro conjI allI impI)
  show "drawGrid en grid idx (s\<lparr>gridLayer := old\<rparr>) = drawGrid en grid idx s"
    by (simp add: drawGrid_def)
next
  fix cs
  assume "get_opt grid ''cells'' = Arr cs \<and> fst (drawGrid en grid idx s) = None"
  then show "gridLayer (snd (drawGrid en grid idx s)) = map (drawn_rect en idx) cs"
    by (simp add: drawGrid_success)
next
  fix cs d
  assume "get_opt grid ''cells'' = Arr cs \<and> (\<forall>c\<in>set cs. \<not> nullish c)
         \<and> folderToISODate en (currentDate s) = Inr d
         \<and> is_num (index_vmin idx) \<and> is_num (index_vmax idx)"
  then show "drawGrid en grid idx s =
           (None, s\<lparr>gridLayer := map (drawn_rect en idx) cs, legendBody := drawn_legend en idx s d\<rparr>)"
    by (intro drawGrid_outcome) simp_all
next
  assume "\<not> truthy (get_opt grid ''cells'')"
  then show "gridLayer (snd (drawGrid en grid idx s)) = []"
    by (rule drawGrid_no_cells(1))
next
  fix d
  assume "\<not> truthy (get_opt grid ''cells'')"
    and "folderToISODate en (currentDate s) = Inr d
              \<and> is_num (index_vmin idx) \<and> is_num (index_vmax idx)"
  then show "drawGrid en grid idx s =
                (None, s\<lparr>gridLayer := [], legendBody := drawn_legend en idx s d\<rparr>)"
    by (simp add: drawGrid_no_cells(2))
next
  fix st ix xs st2 g cs
  assume a: "truthy (currentDate s)
         \<and> fetch en (index_url en (currentDate s) (currentKind s)) = Response st (Inr ix)
         \<and> res_ok st \<and> get_opt ix ''times_utc'' = Arr xs \<and> xs \<noteq> []
         \<and> fetch en (grid_url en (currentDate s) (currentKind s)
               (xs ! nat (clampIndex (length xs) (slider_value (timeSlider s)))))
             = Response st2 (Inr g)
         \<and> res_ok st2 \<and> get_opt g ''cells'' = Arr cs \<and> fst (refresh_try en s) = None"
  then have "truthy (currentDate s)"
    "fetch en (index_url en (currentDate s) (currentKind s)) = Response st (Inr ix)"
    "res_ok st" "get_opt ix ''times_utc'' = Arr xs" "xs \<noteq> []"
    "fetch en (grid_url en (currentDate s) (currentKind s)
               (xs ! nat (clampIndex (length xs) (slider_value (timeSlider s)))))
             = Response st2 (Inr g)"
    "res_ok st2" "get_opt g ''cells'' = Arr cs" "fst (refresh_try en s) = None"
    by simp_all
  then show "gridLayer (snd (refresh en s)) = map (drawn_rect en ix) cs"
    by (rule refresh_grid)
qed

theorem drawGrid_replaces_witness:
  "get_opt ex_grid2 ''cells'' = Arr ex_cells2 \<and> list_all (\<lambda>c. \<not> nullish c) ex_cells2
   \<and> folderToISODate (ex_env ex_fetch) (currentDate ex_state) = Inr ''2024-01-01''
   \<and> is_num (index_vmin ex_index) \<and> is_num (index_vmax ex_index)
   \<and> drawGrid (ex_env ex_fetch) ex_grid2 ex_index (ex_state\<lparr>gridLayer := [ex_rect2, ex_rect2, ex_rect]\<rparr>)
     = (None, ex_state\<lparr>gridLayer := [ex_rect, ex_rect2],
                       legendBody := LegendHtml ''TEC'' ''2024-01-01'' [] ''0.00'' ''10.00'' []\<rparr>)
   \<and> fst (drawGrid (ex_env ex_fetch) ex_grid2 ex_index ex_state) = None
   \<and> gridLayer (snd (drawGrid (ex_env ex_fetch) ex_grid2 ex_index ex_state)) = [ex_rect, ex_rect2]
   \<and> \<not> truthy (get_opt (Obj []) ''cells'')
   \<and> drawGrid (ex_env ex_fetch) (Obj []) ex_index (ex_state\<lparr>gridLayer := [ex_rect2, ex_rect2, ex_rect]\<rparr>)
     = (None, ex_state\<lparr>gridLayer := [],
                       legendBody := LegendHtml ''TEC'' ''2024-01-01'' [] ''0.00'' ''10.00'' []\<rparr>)
   \<and> fst (refresh_try (ex_env ex_fetch) ex_state) = None
   \<and> gridLayer (snd (refresh (ex_env ex_fetch) ex_state)) = [ex_rect]"
proof -
  let ?E = "ex_env ex_fetch"
  let ?old = "[ex_rect2, ex_rect2, ex_rect]"
  let ?xs = "[Str ''0000'', Str ''1200'']"
  note t1 = drawGrid_replaces [where en = ?E and grid = ex_grid2 and idx = ex_index
      and s = ex_state and old = ?old]
  note t2 = drawGrid_replaces [where en = ?E and grid = "Obj []" and idx = ex_index
      and s = ex_state and old = ?old]
  have k1: "get_opt ex_grid2 ''cells'' = Arr ex_cells2" by (simp add: ex_defs ex_cells2_def)
  have k2: "\<forall>c\<in>set ex_cells2. \<not> nullish c" by (simp add: ex_cells2_def)
  have k3: "folderToISODate ?E (currentDate ex_state) = Inr ''2024-01-01''"
    by (simp add: ex_state_def folderToISODate_def folderToISODate_str_def slice_def)
  have k4: "is_num (index_vmin ex_index)" "is_num (index_vmax ex_index)"
    by (simp_all add: index_defs ex_index_def)
  have m: "map (drawn_rect ?E ex_index) ex_cells2 = [ex_rect, ex_rect2]"
    by (simp add: ex_cells2_def index_defs ex_defs draw_eval str_eval)
  have m1: "map (drawn_rect ?E ex_index)
              [Obj [(''lat'', Num (Fin 0)), (''lon'', Num (Fin 0)), (''val'', Num (Fin 5))]] = [ex_rect]"
    by (simp add: index_defs ex_defs draw_eval str_eval)
  have l: "drawn_legend ?E ex_index ex_state ''2024-01-01''
             = LegendHtml ''TEC'' ''2024-01-01'' [] ''0.00'' ''10.00'' []"
    by (simp add: index_defs ex_defs draw_eval str_eval)
  from t1 k1 k2 k3 k4 have d: "drawGrid ?E ex_grid2 ex_index ex_state =
      (None, ex_state\<lparr>gridLayer := map (drawn_rect ?E ex_index) ex_cells2,
                      legendBody := drawn_legend ?E ex_index ex_state ''2024-01-01''\<rparr>)"
    by blast
  from t1 have f: "drawGrid ?E ex_grid2 ex_index (ex_state\<lparr>gridLayer := ?old\<rparr>)
                    = drawGrid ?E ex_grid2 ex_index ex_state" by blast
  have a: "drawGrid ?E ex_grid2 ex_index (ex_state\<lparr>gridLayer := ?old\<rparr>)
     = (None, ex_state\<lparr>gridLayer := [ex_rect, ex_rect2],
                       legendBody := LegendHtml ''TEC'' ''2024-01-01'' [] ''0.00'' ''10.00'' []\<rparr>)"
    unfolding f d m l ..
  from d have ok: "fst (drawGrid ?E ex_grid2 ex_index ex_state) = None" by simp
  from t1 k1 ok have "gridLayer (snd (drawGrid ?E ex_grid2 ex_index ex_state))
                        = map (drawn_rect ?E ex_index) ex_cells2" by blast
  then have b: "gridLayer (snd (drawGrid ?E ex_grid2 ex_index ex_state)) = [ex_rect, ex_rect2]"
    unfolding m .
  have u: "\<not> truthy (get_opt (Obj []) ''cells'')" by simp
  from t2 u k3 k4 have e: "drawGrid ?E (Obj []) ex_index ex_state =
      (None, ex_state\<lparr>gridLayer := [], legendBody := drawn_legend ?E ex_index ex_state ''2024-01-01''\<rparr>)"
    by blast
  from t2 have f2: "drawGrid ?E (Obj []) ex_index (ex_state\<lparr>gridLayer := ?old\<rparr>)
                    = drawGrid ?E (Obj []) ex_index ex_state" by blast
  have c: "drawGrid ?E (Obj []) ex_index (ex_state\<lparr>gridLayer := ?old\<rparr>)
     = (None, ex_state\<lparr>gridLayer := [],
                       legendBody := LegendHtml ''TEC'' ''2024-01-01'' [] ''0.00'' ''10.00'' []\<rparr>)"
    unfolding f2 e l ..
  have h1: "truthy (currentDate ex_state)" by (simp add: ex_defs)
  have g1: "fetch ?E (index_url ?E (currentDate ex_state) (currentKind ex_state))
       = Response 200 (Inr ex_index)" by (simp add: ex_defs)
  have h3: "res_ok 200" by (simp add: res_ok_def)
  have g2: "get_opt ex_index ''times_utc'' = Arr ?xs" "?xs \<noteq> []"
    by (simp_all add: ex_defs)
  have ci: "clampIndex (Suc (Suc 0)) ''7'' = 1" by (simp add: parse_eval)
  have g3: "fst (refresh_try ?E ex_state) = None"
    by (simp add: run_eval draw_eval ex_defs str_eval ci)
  have g4: "fetch ?E (grid_url ?E (currentDate ex_state) (currentKind ex_state)
               (?xs ! nat (clampIndex (length ?xs) (slider_value (timeSlider ex_state)))))
             = Response 200 (Inr ex_grid)"
    by (simp add: ex_defs ci)
  have g5: "get_opt ex_grid ''cells''
      = Arr [Obj [(''lat'', Num (Fin 0)), (''lon'', Num (Fin 0)), (''val'', Num (Fin 5))]]"
    by (simp add: ex_defs)
  from t1 h1 g1 h3 g2 g4 g5 g3 have "gridLayer (snd (refresh ?E ex_state)) =
      map (drawn_rect ?E ex_index)
        [Obj [(''lat'', Num (Fin 0)), (''lon'', Num (Fin 0)), (''val'', Num (Fin 5))]]"
    by blast
  then have r: "gridLayer (snd (refresh ?E ex_state)) = [ex_rect]"
    unfolding m1 .
  have k2': "list_all (\<lambda>c. \<not> nullish c) ex_cells2" by (simp add: ex_cells2_def)
  from k1 k2' k3 k4 a ok b u c g3 r show ?thesis by blast
qed

section \<open>Properties of the start-up\<close>

lemma iso_prefix:
  assumes "calendar_date d"
  shows "slice 0 10 (toISOString d) = utc_iso d"
proof -
  from assms have "nat (year d) < 10000" and "month d < 100" and "day d < 100"
    unfolding calendar_date_def by linarith+
  then have y: "nat (year d) < 10 ^ 4" and m: "month d < 10 ^ 2" and dd: "day d < 10 ^ 2"
    by simp_all
  have "length (pad 4 (nat (year d))) = 4" "length (pad 2 (month d)) = 2" "length (pad 2 (day d)) = 2"
    using y m dd by (simp_all add: length_pad)
  then show ?thesis
    using assms by (simp add: toISOString_def utc_iso_def slice_def calendar_date_def)
qed

lemma folder_of_iso: "ymdToFolder (utc_iso d) = utc_folder d"
  by (simp add: ymdToFolder_def utc_iso_def utc_folder_def no_dash pad_all_digits)

lemma utc_folder_truthy: "calendar_date d \<Longrightarrow> truthy (Str (utc_folder d))"
proof -
  assume "calendar_date d"
  then have "nat (year d) < 10000" unfolding calendar_date_def by linarith
  then have "nat (year d) < 10 ^ 4" by simp
  then have "length (pad 4 (nat (year d))) = 4" by (simp add: length_pad)
  then have "pad 4 (nat (year d)) \<noteq> []" by auto
  then show ?thesis by (simp add: utc_folder_def)
qed

lemma loadLatestDate_state: "snd (loadLatestDate en s) = s\<lparr>requests := requests s @ [latest_url]\<rparr>"
proof -
  obtain r s1 where f: "fetchJson en latest_url s = (r, s1)" by force
  with fetchJson_state [of en latest_url s] have "s1 = s\<lparr>requests := requests s @ [latest_url]\<rparr>"
    by simp
  with f show ?thesis by (simp add: loadLatestDate_def split: sum.splits)
qed

lemma setDateFromLatest_fetch_fails:
  assumes "fetch_fails en latest_url"
  shows "fst (setDateFromLatest en s) \<noteq> None"
proof -
  from fetchJson_fails [OF assms, of s] obtain e where
    "fetchJson en latest_url s = (Inl e, s\<lparr>requests := requests s @ [latest_url]\<rparr>)" by blast
  then show ?thesis by (simp add: setDateFromLatest_def loadLatestDate_def)
qed

lemma setDateFromLatest_failed_state:
  assumes "fst (setDateFromLatest en s) \<noteq> None"
  shows "\<exists>d. snd (setDateFromLatest en s) = s\<lparr>requests := requests s @ [latest_url], currentDate := d\<rparr>"
proof -
  obtain r s1 where l: "loadLatestDate en s = (r, s1)" by force
  with loadLatestDate_state [of en s] have s1: "s1 = s\<lparr>requests := requests s @ [latest_url]\<rparr>"
    by simp
  show ?thesis
  proof (cases r)
    case (Inl e)
    with l s1 have "snd (setDateFromLatest en s) = s\<lparr>requests := requests s @ [latest_url], currentDate := currentDate s\<rparr>"
      by (simp add: setDateFromLatest_def)
    then show ?thesis by blast
  next
    case (Inr ymd)
    with l s1 assms have "snd (setDateFromLatest en s) = s\<lparr>requests := requests s @ [latest_url], currentDate := ymd\<rparr>"
      by (simp add: setDateFromLatest_def split: sum.splits)
    then show ?thesis by blast
  qed
qed

lemma refresh_try_requests:
  "\<exists>rest. requests (snd (refresh_try en s)) =
            requests s @ index_url en (currentDate s) (currentKind s) # rest"
proof (cases "fetch_fails en (index_url en (currentDate s) (currentKind s))")
  case True
  from refresh_try_index_fail [OF True] obtain e where "refresh_try en s = (Some e, loading en s)"
    by blast
  then show ?thesis by (simp add: loading_def)
next
  case False
  then obtain st idx where f: "fetch en (index_url en (currentDate s) (currentKind s)) = Response st (Inr idx)"
    and ok: "res_ok st"
    by (rule fetch_succeeds)
  let ?t = "js_or (get_opt idx ''times_utc'') (Arr [])"
  show ?thesis
  proof (cases "\<exists>x xs. ?t = Arr (x # xs)")
    case True
    then obtain x xs where t: "?t = Arr (x # xs)" by blast
    have "refresh_try en s = showTime en idx (x # xs) ((loading en s)\<lparr>times_var := Arr (x # xs)\<rparr>)"
      unfolding refresh_try_index_ok [OF f ok] by (simp add: t)
    then show ?thesis
      by (simp add: showTime_requests loading_def split: sum.splits)
  next
    case False
    then have n: "\<forall>x xs. ?t \<noteq> Arr (x # xs)" by blast
    then have "refresh_try en s = (None, noTimes ((loading en s)\<lparr>times_var := ?t\<rparr>))"
      unfolding refresh_try_index_ok [OF f ok]
      by (cases ?t) (auto simp: neq_Nil_conv)
    then show ?thesis by (simp add: noTimes_def loading_def setStatus_def)
  qed
qed

lemma refresh_keeps:
  assumes "truthy (currentDate s)"
  shows "currentDate (snd (refresh en s)) = currentDate s"
    and "dateInput (snd (refresh en s)) = dateInput s"
    and "\<exists>rest. requests (snd (refresh en s)) =
            requests s @ index_url en (currentDate s) (currentKind s) # rest"
  using assms refresh_try_requests [of en s]
  by (auto simp: refresh_snd refresh_try_keeps refresh_catch_def setStatus_def split: option.splits)

text \<open>
  C5: when the fetch of the latest-date pointer fails at start-up (or \<open>setDateFromLatest\<close>
  raises for any other reason), \<open>boot\<close> raises nothing, sets the date control and the
  current date to the calendar date of the clock in UTC, whatever the local time zone,
  and then runs \<open>refresh\<close> for that date: the index of that date is requested next.
\<close>

theorem boot_falls_back_to_utc:
  assumes "fetch_fails en latest_url \<or> fst (setDateFromLatest en s) \<noteq> None"
    and "calendar_date (clock en)"
  shows "fst (boot en s) = None
         \<and> boot en s = refresh en (s\<lparr>requests := requests s @ [latest_url],
                                      dateInput := utc_iso (clock en),
                                      currentDate := Str (utc_folder (clock en))\<rparr>)
         \<and> currentDate (snd (boot en s)) = Str (utc_folder (clock en))
         \<and> dateInput (snd (boot en s)) = utc_iso (clock en)
         \<and> (\<exists>rest. requests (snd (boot en s)) =
               requests s @ latest_url
                 # index_url en (Str (utc_folder (clock en))) (currentKind s) # rest)"
proof -
  let ?s1 = "s\<lparr>requests := requests s @ [latest_url], dateInput := utc_iso (clock en),
               currentDate := Str (utc_folder (clock en))\<rparr>"
  from assms(1) have f: "fst (setDateFromLatest en s) \<noteq> None"
    using setDateFromLatest_fetch_fails by blast
  then obtain e where e: "fst (setDateFromLatest en s) = Some e" by auto
  from setDateFromLatest_failed_state [OF f] obtain d where
    d: "snd (setDateFromLatest en s) = s\<lparr>requests := requests s @ [latest_url], currentDate := d\<rparr>"
    by blast
  have fb: "boot_fallback en (s\<lparr>requests := requests s @ [latest_url], currentDate := d\<rparr>) = ?s1"
    by (simp add: boot_fallback_def Let_def iso_prefix [OF assms(2)] folder_of_iso)
  obtain r s2 where sd: "setDateFromLatest en s = (r, s2)" by force
  with e d have "r = Some e" and "s2 = s\<lparr>requests := requests s @ [latest_url], currentDate := d\<rparr>"
    by simp_all
  with sd fb have b: "boot en s = refresh en ?s1"
    by (simp add: boot_def)
  have t: "truthy (currentDate ?s1)"
    using utc_folder_truthy [OF assms(2)] by simp
  from refresh_keeps(3) [OF t, of en] obtain rest where
    "requests (snd (refresh en ?s1)) = requests ?s1 @ index_url en (currentDate ?s1) (currentKind ?s1) # rest"
    by blast
  then have r: "requests (snd (boot en s)) =
               requests s @ latest_url
                 # index_url en (Str (utc_folder (clock en))) (currentKind s) # rest"
    by (simp add: b)
  show ?thesis
    using r refresh_keeps(1,2) [OF t, of en] by (simp add: b refresh_never_throws)
qed

theorem boot_falls_back_to_utc_witness:
  "fetch_fails (ex_env ex_fetch_down) latest_url \<and> calendar_date (clock (ex_env ex_fetch_down))
   \<and> timezoneOffset (clock (ex_env ex_fetch_down)) = - 540
   \<and> fst (boot (ex_env ex_fetch_down) (initial ex_state)) = None
   \<and> currentDate (snd (boot (ex_env ex_fetch_down) (initial ex_state))) = Str ''20261103''
   \<and> dateInput (snd (boot (ex_env ex_fetch_down) (initial ex_state))) = ''2026-11-03''
   \<and> take 2 (requests (snd (boot (ex_env ex_fetch_down) (initial ex_state))))
       = [''./data/latest.json'', ''./data/20261103/tec/index.json'']"
proof -
  have h1: "fetch_fails (ex_env ex_fetch_down) latest_url"
    by (simp add: fetch_fails_def ex_defs)
  then have h1': "fetch_fails (ex_env ex_fetch_down) latest_url
      \<or> fst (setDateFromLatest (ex_env ex_fetch_down) (initial ex_state)) \<noteq> None" by simp
  have h2: "calendar_date (clock (ex_env ex_fetch_down))"
    by (simp add: calendar_date_def ex_defs)
  have u: "utc_folder (clock (ex_env ex_fetch_down)) = ''20261103''"
      "utc_iso (clock (ex_env ex_fetch_down)) = ''2026-11-03''"
    by (simp_all add: utc_folder_def utc_iso_def ex_defs str_eval)
  have k: "currentKind (initial ex_state) = ''tec''" "requests (initial ex_state) = []"
    by (simp_all add: initial_def)
  from boot_falls_back_to_utc [OF h1' h2]
  have "fst (boot (ex_env ex_fetch_down) (initial ex_state)) = None
   \<and> currentDate (snd (boot (ex_env ex_fetch_down) (initial ex_state))) = Str ''20261103''
   \<and> dateInput (snd (boot (ex_env ex_fetch_down) (initial ex_state))) = ''2026-11-03''
   \<and> take 2 (requests (snd (boot (ex_env ex_fetch_down) (initial ex_state))))
       = [''./data/latest.json'', ''./data/20261103/tec/index.json'']"
    by (auto simp: u k latest_url_def index_url_def)
  with h1 h2 show ?thesis by (simp add: ex_defs)
qed

end
